theory Spec2Isabelle
  imports Complex_Main
begin

section \<open>Data model\<close>

text \<open>
  The module \<^verbatim>\<open>box_delivery_dataset.py\<close> defines two adapters,
  \<^verbatim>\<open>BoxDeliveryImageDataset\<close> and \<^verbatim>\<open>BoxDeliveryLowdimDataset\<close>, over collaborators
  it imports: the replay buffer, the sequence sampler, the mask utilities, the
  normalizer and numpy. Exceptions are values of \<open>error\<close>; a function that can raise
  returns \<open>error + 'a\<close>, with \<open>Inl\<close> the exception.
\<close>

datatype error =
  KeyError | IndexError | ValueError | AxisError | TypeError | AssertionError | RuntimeError

datatype dtype = boolean | uint8 | int64 | float32 | float64

text \<open>
  A numpy array: its shape, its dtype and its elements in row-major (C) order.
  Elements are real numbers; storing a value into a dtype goes through the conversion
  \<open>rnd\<close> of the environment (see \<open>externals\<close>).
\<close>

record ndarray =
  shape :: "nat list"
  dtype :: dtype
  data :: "real list"

text \<open>A torch tensor as \<^verbatim>\<open>torch.from_numpy\<close> makes it: same shape, dtype and elements.\<close>

record tensor =
  t_shape :: "nat list"
  t_dtype :: dtype
  t_data :: "real list"

definition from_numpy :: "ndarray \<Rightarrow> tensor" where
  "from_numpy a = \<lparr>t_shape = shape a, t_dtype = dtype a, t_data = data a\<rparr>"

text \<open>
  A dict with string keys whose values are arrays or dicts again (the records returned
  by \<^verbatim>\<open>_sample_to_data\<close>), in insertion order.
\<close>

datatype 'a pydict = Leaf 'a | Dict "(string \<times> 'a pydict) list"

fun dict_getitem :: "'a pydict \<Rightarrow> string \<Rightarrow> error + 'a pydict" where
  "dict_getitem (Dict kvs) k = (case map_of kvs k of None \<Rightarrow> Inl KeyError | Some v \<Rightarrow> Inr v)"
| "dict_getitem (Leaf a) k = Inl TypeError"

text \<open>
  Modelled from the spec: \<^verbatim>\<open>dict_apply\<close> of \<^verbatim>\<open>diffusion_policy.common.pytorch_util\<close> is not
  part of the module; \<^verbatim>\<open>__getitem__\<close> uses it to turn every array of the nested record
  into a tensor, keeping the keys.
\<close>

definition dict_apply :: "'a pydict \<Rightarrow> ('a \<Rightarrow> 'b) \<Rightarrow> 'b pydict" where
  "dict_apply x func = map_pydict func x"

text \<open>
  Modelled from the spec: the replay buffer (\<^verbatim>\<open>diffusion_policy.common.replay_buffer\<close>) is a
  columnar store of episodes: named per-timestep fields and the episode boundaries.
  \<^verbatim>\<open>replay_buffer[key]\<close> is a lookup of the field, as for a dict.
\<close>

record replay_buffer =
  rb_data :: "string \<rightharpoonup> ndarray"
  episode_ends :: "nat list"

definition n_episodes :: "replay_buffer \<Rightarrow> nat" where
  "n_episodes rb = length (episode_ends rb)"

definition getitem :: "(string \<rightharpoonup> ndarray) \<Rightarrow> string \<Rightarrow> error + ndarray" where
  "getitem m k = (case m k of None \<Rightarrow> Inl KeyError | Some a \<Rightarrow> Inr a)"

text \<open>
  The collaborators the module imports and does not define, taken as parameters.
  Each may raise. \<open>'smp\<close> is the sampler object, \<open>'p\<close> the normalizer of one entry,
  \<open>'kw\<close> the keyword options handed through to \<^verbatim>\<open>fit\<close>. A fitted
  \<^verbatim>\<open>LinearNormalizer\<close> is its dict of per-entry normalizers, \<open>string \<rightharpoonup> 'p\<close>.
  \<open>rnd dt x\<close> is the value \<open>x\<close> as stored in dtype \<open>dt\<close> (for a float dtype, \<open>x\<close> rounded).
\<close>

record ('smp, 'p, 'kw) externals =
  copy_from_path :: "string \<Rightarrow> string list \<Rightarrow> error + replay_buffer"
  get_val_mask :: "nat \<Rightarrow> real \<Rightarrow> int \<Rightarrow> error + bool list"
  downsample_mask :: "bool list \<Rightarrow> int option \<Rightarrow> int \<Rightarrow> error + bool list"
  SequenceSampler :: "replay_buffer \<Rightarrow> int \<Rightarrow> int \<Rightarrow> int \<Rightarrow> bool list \<Rightarrow> error + 'smp"
  sample_sequence :: "'smp \<Rightarrow> int \<Rightarrow> error + (string \<rightharpoonup> ndarray)"
  sampler_len :: "'smp \<Rightarrow> nat"
  fit :: "ndarray pydict \<Rightarrow> nat \<Rightarrow> string \<Rightarrow> 'kw \<Rightarrow> error + (string \<rightharpoonup> 'p)"
  get_image_range_normalizer :: "'p"
  rnd :: "dtype \<Rightarrow> real \<Rightarrow> real"

text \<open>
  The attributes both \<^verbatim>\<open>__init__\<close> methods set, and the three more of the lowdim
  adapter. \<^verbatim>\<open>mask_key\<close> is an argument of the lowdim constructor only: it is not kept.
\<close>

record 'smp dataset =
  replay_buffer :: replay_buffer
  sampler :: 'smp
  train_mask :: "bool list"
  horizon :: int
  pad_before :: int
  pad_after :: int

record 'smp lowdim_dataset = "'smp dataset" +
  obs_key :: string
  state_key :: string
  action_key :: string

text \<open>\<^verbatim>\<open>~mask\<close> on a boolean array.\<close>

definition invert :: "bool list \<Rightarrow> bool list" where
  "invert m = map Not m"

section \<open>Validation views\<close>

text \<open>
  Objects live in a heap, a list indexed by address; \<^verbatim>\<open>copy.copy\<close> allocates the next
  address and copies the attributes, and an attribute assignment updates the object at
  its address. \<^verbatim>\<open>get_validation_dataset\<close> returns the new heap and the address of the
  view. The two methods have the same text (lines 49-59 and 137-147). Python has no
  reference to an object that does not exist; for an address outside the heap the
  model answers \<open>RuntimeError\<close>.
\<close>

definition Image_get_validation_dataset ::
  "('smp, 'p, 'kw) externals \<Rightarrow> 'smp dataset list \<Rightarrow> nat \<Rightarrow> error + ('smp dataset list \<times> nat)" where
  "Image_get_validation_dataset ext h self =
    (if length h \<le> self then Inl RuntimeError
     else
       let val_set = length h;
           h1 = h @ [h ! self]
       in case SequenceSampler ext (replay_buffer (h1 ! self)) (horizon (h1 ! self))
                 (pad_before (h1 ! self)) (pad_after (h1 ! self)) (invert (train_mask (h1 ! self))) of
            Inl e \<Rightarrow> Inl e
          | Inr s \<Rightarrow>
              let h2 = h1[val_set := (h1 ! val_set)\<lparr>sampler := s\<rparr>];
                  h3 = h2[val_set := (h2 ! val_set)\<lparr>train_mask := invert (train_mask (h2 ! self))\<rparr>]
              in Inr (h3, val_set))"

definition Lowdim_get_validation_dataset ::
  "('smp, 'p, 'kw) externals \<Rightarrow> 'smp lowdim_dataset list \<Rightarrow> nat
    \<Rightarrow> error + ('smp lowdim_dataset list \<times> nat)" where
  "Lowdim_get_validation_dataset ext h self =
    (if length h \<le> self then Inl RuntimeError
     else
       let val_set = length h;
           h1 = h @ [h ! self]
       in case SequenceSampler ext (replay_buffer (h1 ! self)) (horizon (h1 ! self))
                 (pad_before (h1 ! self)) (pad_after (h1 ! self)) (invert (train_mask (h1 ! self))) of
            Inl e \<Rightarrow> Inl e
          | Inr s \<Rightarrow>
              let h2 = h1[val_set := (h1 ! val_set)\<lparr>sampler := s\<rparr>];
                  h3 = h2[val_set := (h2 ! val_set)\<lparr>train_mask := invert (train_mask (h2 ! self))\<rparr>]
              in Inr (h3, val_set))"

section \<open>Array operations\<close>

text \<open>
  The numpy operations the adapters use, on the row-major representation.
  \<open>rows n d xs\<close> cuts \<open>xs\<close> into \<open>n\<close> consecutive blocks of \<open>d\<close> elements.
\<close>

definition rows :: "nat \<Rightarrow> nat \<Rightarrow> 'a list \<Rightarrow> 'a list list" where
  "rows n d xs = map (\<lambda>i. take d (drop (i * d) xs)) [0..<n]"

text \<open>
  The basic slice \<^verbatim>\<open>[0:stop]\<close> along axis \<open>ax\<close>, every other axis whole: of each
  block of \<open>shape ! ax\<close> sub-arrays the first \<open>stop\<close> are kept.
\<close>

definition slice_axis :: "nat \<Rightarrow> nat \<Rightarrow> ndarray \<Rightarrow> ndarray" where
  "slice_axis ax stop a =
     (let s = shape a;
          outer = prod_list (take ax s);
          n = s ! ax;
          inner = prod_list (drop (Suc ax) s)
      in a\<lparr>shape := take ax s @ [min stop n] @ drop (Suc ax) s,
           data := concat (map (take (stop * inner)) (rows outer (n * inner) (data a)))\<rparr>)"

text \<open>\<^verbatim>\<open>a[:, :2]\<close>: two indices, so an array of fewer than two axes raises IndexError.\<close>

definition getitem_colon_to2 :: "ndarray \<Rightarrow> error + ndarray" where
  "getitem_colon_to2 a = (if length (shape a) < 2 then Inl IndexError else Inr (slice_axis 1 2 a))"

text \<open>\<^verbatim>\<open>a[..., :2]\<close>: the slice is on the last axis; a 0-d array raises IndexError.\<close>

definition getitem_ellipsis_to2 :: "ndarray \<Rightarrow> error + ndarray" where
  "getitem_ellipsis_to2 a =
     (if length (shape a) < 1 then Inl IndexError
      else Inr (slice_axis (length (shape a) - 1) 2 a))"

text \<open>
  \<^verbatim>\<open>a.astype(dt)\<close>: a copy of dtype \<open>dt\<close>, every element converted (unchanged when the
  dtype already is \<open>dt\<close>).
\<close>

definition astype :: "(dtype \<Rightarrow> real \<Rightarrow> real) \<Rightarrow> ndarray \<Rightarrow> dtype \<Rightarrow> ndarray" where
  "astype r a dt = (if dtype a = dt then a else a\<lparr>dtype := dt, data := map (r dt) (data a)\<rparr>)"

text \<open>
  \<^verbatim>\<open>np.moveaxis(a, -1, 1)\<close>: the last axis becomes axis 1, the others keep their order;
  destination axis 1 does not exist below two axes (AxisError). For shape
  \<open>n0 # mid @ [c]\<close> each of the \<open>n0\<close> leading blocks is a \<open>prod_list mid\<close> by \<open>c\<close> matrix,
  which is transposed.
\<close>

definition moveaxis_last_to_1 :: "ndarray \<Rightarrow> error + ndarray" where
  "moveaxis_last_to_1 a =
     (let s = shape a
      in if length s < 2 then Inl AxisError
         else
           let n0 = hd s; c = last s; mid = butlast (tl s); m = prod_list mid
           in Inr (a\<lparr>shape := n0 # c # mid,
                     data := concat (map (\<lambda>blk. concat (transpose (rows m c blk)))
                                      (rows n0 (m * c) (data a)))\<rparr>))"

text \<open>
  \<^verbatim>\<open>a / k\<close> for a Python number \<open>k\<close>: true division, in float32 for a float32 array and
  in float64 for every other dtype of \<open>dtype\<close>; each quotient is rounded into that dtype.
\<close>

definition true_divide :: "(dtype \<Rightarrow> real \<Rightarrow> real) \<Rightarrow> ndarray \<Rightarrow> real \<Rightarrow> ndarray" where
  "true_divide r a k =
     (let dt = (if dtype a = float32 then float32 else float64)
      in a\<lparr>dtype := dt, data := map (\<lambda>x. r dt (x / k)) (data a)\<rparr>)"

text \<open>
  \<^verbatim>\<open>a.reshape(a.shape[0], -1)\<close>: \<^verbatim>\<open>a.shape[0]\<close> raises IndexError on a 0-d array, and
  numpy cannot infer the \<open>-1\<close> when the known dimension is 0 (ValueError).
\<close>

definition reshape_shape0_minus1 :: "ndarray \<Rightarrow> error + ndarray" where
  "reshape_shape0_minus1 a =
     (case shape a of
        [] \<Rightarrow> Inl IndexError
      | n0 # rest \<Rightarrow> if n0 = 0 then Inl ValueError else Inr (a\<lparr>shape := [n0, prod_list rest]\<rparr>))"

text \<open>numpy's \<^verbatim>\<open>promote_types\<close> on the five dtypes.\<close>

definition promote_types :: "dtype \<Rightarrow> dtype \<Rightarrow> dtype" where
  "promote_types a b =
     (if a = b then a
      else if a = boolean then b
      else if b = boolean then a
      else if a = float64 \<or> b = float64 then float64
      else if a = uint8 then b
      else if b = uint8 then a
      else float64)"

text \<open>
  \<^verbatim>\<open>np.concatenate([a, b], axis=-1)\<close>: both arrays need at least one axis, the same
  number of axes and the same shape but for the last axis (ValueError otherwise); the
  rows of \<open>b\<close> are appended to the rows of \<open>a\<close>, in the promoted dtype.
\<close>

definition concatenate_last :: "(dtype \<Rightarrow> real \<Rightarrow> real) \<Rightarrow> ndarray \<Rightarrow> ndarray \<Rightarrow> error + ndarray" where
  "concatenate_last r a b =
     (let sa = shape a; sb = shape b
      in if sa = [] \<or> sb = [] then Inl ValueError
         else if length sa \<noteq> length sb then Inl ValueError
         else if butlast sa \<noteq> butlast sb then Inl ValueError
         else
           let dt = promote_types (dtype a) (dtype b);
               n = prod_list (butlast sa)
           in Inr \<lparr>shape = butlast sa @ [last sa + last sb], dtype = dt,
                   data = concat (map2 (@) (rows n (last sa) (data (astype r a dt)))
                                           (rows n (last sb) (data (astype r b dt))))\<rparr>)"

section \<open>The image adapter\<close>

text \<open>\<^verbatim>\<open>BoxDeliveryImageDataset.__init__\<close> (lines 15-47); the new object is returned.\<close>

definition Image_init ::
  "('smp, 'p, 'kw) externals \<Rightarrow> string \<Rightarrow> int \<Rightarrow> int \<Rightarrow> int \<Rightarrow> int \<Rightarrow> real \<Rightarrow> int option
    \<Rightarrow> error + 'smp dataset" where
  "Image_init ext zarr_path horizon' pad_before' pad_after' seed val_ratio max_train_episodes =
    (case copy_from_path ext zarr_path [''img'', ''state'', ''action''] of
       Inl e \<Rightarrow> Inl e
     | Inr rb \<Rightarrow>
    (case get_val_mask ext (n_episodes rb) val_ratio seed of
       Inl e \<Rightarrow> Inl e
     | Inr val_mask \<Rightarrow>
    (case downsample_mask ext (invert val_mask) max_train_episodes seed of
       Inl e \<Rightarrow> Inl e
     | Inr train_mask' \<Rightarrow>
    (case SequenceSampler ext rb horizon' pad_before' pad_after' train_mask' of
       Inl e \<Rightarrow> Inl e
     | Inr s \<Rightarrow>
         Inr \<lparr>replay_buffer = rb, sampler = s, train_mask = train_mask',
              horizon = horizon', pad_before = pad_before', pad_after = pad_after'\<rparr>))))"

text \<open>\<^verbatim>\<open>get_normalizer\<close> (lines 61-69).\<close>

definition Image_get_normalizer ::
  "('smp, 'p, 'kw) externals \<Rightarrow> 'smp dataset \<Rightarrow> string \<Rightarrow> 'kw \<Rightarrow> error + (string \<rightharpoonup> 'p)" where
  "Image_get_normalizer ext self mode kwargs =
    (case getitem (rb_data (replay_buffer self)) ''action'' of
       Inl e \<Rightarrow> Inl e
     | Inr act \<Rightarrow>
    (case getitem (rb_data (replay_buffer self)) ''state'' of
       Inl e \<Rightarrow> Inl e
     | Inr st \<Rightarrow>
    (case getitem_ellipsis_to2 st of
       Inl e \<Rightarrow> Inl e
     | Inr agent_pos \<Rightarrow>
    (case fit ext (Dict [(''action'', Leaf act), (''agent_pos'', Leaf agent_pos)]) 1 mode kwargs of
       Inl e \<Rightarrow> Inl e
     | Inr normalizer \<Rightarrow> Inr (normalizer(''image'' \<mapsto> get_image_range_normalizer ext))))))"

definition Image_len :: "('smp, 'p, 'kw) externals \<Rightarrow> 'smp dataset \<Rightarrow> nat" where
  "Image_len ext self = sampler_len ext (sampler self)"

text \<open>\<^verbatim>\<open>_sample_to_data\<close> (lines 74-85), in the order the source evaluates.\<close>

definition Image_sample_to_data ::
  "('smp, 'p, 'kw) externals \<Rightarrow> (string \<rightharpoonup> ndarray) \<Rightarrow> error + ndarray pydict" where
  "Image_sample_to_data ext sample =
    (case getitem sample ''state'' of
       Inl e \<Rightarrow> Inl e
     | Inr state \<Rightarrow>
    (case getitem_colon_to2 state of
       Inl e \<Rightarrow> Inl e
     | Inr state2 \<Rightarrow>
    (let agent_pos = astype (rnd ext) state2 float32
     in case getitem sample ''img'' of
       Inl e \<Rightarrow> Inl e
     | Inr img \<Rightarrow>
    (case moveaxis_last_to_1 img of
       Inl e \<Rightarrow> Inl e
     | Inr moved \<Rightarrow>
    (let image = true_divide (rnd ext) moved 255
     in case getitem sample ''action'' of
       Inl e \<Rightarrow> Inl e
     | Inr action \<Rightarrow>
         Inr (Dict [
           (''obs'', Dict [
              (''image'', Leaf image),
              (''agent_pos'', Leaf agent_pos)]),
           (''action'', Leaf (astype (rnd ext) action float32))]))))))"

text \<open>\<^verbatim>\<open>__getitem__\<close> (lines 87-91).\<close>

definition Image_getitem ::
  "('smp, 'p, 'kw) externals \<Rightarrow> 'smp dataset \<Rightarrow> int \<Rightarrow> error + tensor pydict" where
  "Image_getitem ext self idx =
    (case sample_sequence ext (sampler self) idx of
       Inl e \<Rightarrow> Inl e
     | Inr sample \<Rightarrow>
    (case Image_sample_to_data ext sample of
       Inl e \<Rightarrow> Inl e
     | Inr data' \<Rightarrow> Inr (dict_apply data' from_numpy)))"

section \<open>The lowdim adapter\<close>

text \<open>\<^verbatim>\<open>BoxDeliveryLowdimDataset.__init__\<close> (lines 93-135).\<close>

definition Lowdim_init ::
  "('smp, 'p, 'kw) externals \<Rightarrow> string \<Rightarrow> int \<Rightarrow> int \<Rightarrow> int \<Rightarrow> string \<Rightarrow> string \<Rightarrow> string \<Rightarrow> string
    \<Rightarrow> int \<Rightarrow> real \<Rightarrow> int option \<Rightarrow> error + 'smp lowdim_dataset" where
  "Lowdim_init ext zarr_path horizon' pad_before' pad_after' obs_key' state_key' action_key' mask_key
      seed val_ratio max_train_episodes =
    (case copy_from_path ext zarr_path [obs_key', state_key', action_key', mask_key] of
       Inl e \<Rightarrow> Inl e
     | Inr rb \<Rightarrow>
    (case get_val_mask ext (n_episodes rb) val_ratio seed of
       Inl e \<Rightarrow> Inl e
     | Inr val_mask \<Rightarrow>
    (case downsample_mask ext (invert val_mask) max_train_episodes seed of
       Inl e \<Rightarrow> Inl e
     | Inr train_mask' \<Rightarrow>
    (case SequenceSampler ext rb horizon' pad_before' pad_after' train_mask' of
       Inl e \<Rightarrow> Inl e
     | Inr s \<Rightarrow>
         Inr \<lparr>replay_buffer = rb, sampler = s, train_mask = train_mask',
              horizon = horizon', pad_before = pad_before', pad_after = pad_after',
              obs_key = obs_key', state_key = state_key', action_key = action_key'\<rparr>))))"

text \<open>
  \<^verbatim>\<open>_sample_to_data\<close> (lines 169-189). \<open>sample\<close> is whatever answers \<^verbatim>\<open>sample[key]\<close>:
  a window of the sampler, or the replay buffer itself.
\<close>

definition Lowdim_sample_to_data ::
  "('smp, 'p, 'kw) externals \<Rightarrow> 'smp lowdim_dataset \<Rightarrow> (string \<rightharpoonup> ndarray) \<Rightarrow> error + ndarray pydict" where
  "Lowdim_sample_to_data ext self sample =
    (case getitem sample (obs_key self) of
       Inl e \<Rightarrow> Inl e
     | Inr state \<Rightarrow>
    (case getitem sample (state_key self) of
       Inl e \<Rightarrow> Inl e
     | Inr goal \<Rightarrow>
    (case reshape_shape0_minus1 state of
       Inl e \<Rightarrow> Inl e
     | Inr flat \<Rightarrow>
    (case concatenate_last (rnd ext) flat goal of
       Inl e \<Rightarrow> Inl e
     | Inr obs \<Rightarrow>
    (case getitem sample (action_key self) of
       Inl e \<Rightarrow> Inl e
     | Inr act \<Rightarrow> Inr (Dict [(''obs'', Leaf obs), (''action'', Leaf act)]))))))"

text \<open>\<^verbatim>\<open>get_normalizer\<close> (lines 149-161).\<close>

definition Lowdim_get_normalizer ::
  "('smp, 'p, 'kw) externals \<Rightarrow> 'smp lowdim_dataset \<Rightarrow> string \<Rightarrow> 'kw \<Rightarrow> error + (string \<rightharpoonup> 'p)" where
  "Lowdim_get_normalizer ext self mode kwargs =
    (case Lowdim_sample_to_data ext self (rb_data (replay_buffer self)) of
       Inl e \<Rightarrow> Inl e
     | Inr data' \<Rightarrow> fit ext data' 1 mode kwargs)"

text \<open>\<^verbatim>\<open>get_all_actions\<close> (lines 163-164).\<close>

definition Lowdim_get_all_actions ::
  "('smp, 'p, 'kw) externals \<Rightarrow> 'smp lowdim_dataset \<Rightarrow> error + tensor" where
  "Lowdim_get_all_actions ext self =
    (case getitem (rb_data (replay_buffer self)) (action_key self) of
       Inl e \<Rightarrow> Inl e
     | Inr a \<Rightarrow> Inr (from_numpy a))"

definition Lowdim_len :: "('smp, 'p, 'kw) externals \<Rightarrow> 'smp lowdim_dataset \<Rightarrow> nat" where
  "Lowdim_len ext self = sampler_len ext (sampler self)"

text \<open>\<^verbatim>\<open>__getitem__\<close> (lines 191-197).\<close>

definition Lowdim_getitem ::
  "('smp, 'p, 'kw) externals \<Rightarrow> 'smp lowdim_dataset \<Rightarrow> int \<Rightarrow> error + tensor pydict" where
  "Lowdim_getitem ext self idx =
    (case sample_sequence ext (sampler self) idx of
       Inl e \<Rightarrow> Inl e
     | Inr sample \<Rightarrow>
    (case Lowdim_sample_to_data ext self sample of
       Inl e \<Rightarrow> Inl e
     | Inr data' \<Rightarrow> Inr (dict_apply data' from_numpy)))"

section \<open>A concrete environment\<close>

text \<open>
  A small instance of the collaborators, to evaluate the adapters on concrete inputs:
  a store of three episodes at \<^verbatim>\<open>demo.zarr\<close> and the same with a mask field at
  \<^verbatim>\<open>masked.zarr\<close>, the first episode held out when \<open>val_ratio\<close> is
  positive, downsampling that keeps the first \<open>max_n\<close> selected episodes, and a sampler
  that records what it was built from; the normalizer of an entry is the pair of the
  least and the greatest element of its array.
\<close>

fun keep_first :: "nat \<Rightarrow> bool list \<Rightarrow> bool list" where
  "keep_first n [] = []"
| "keep_first n (b # bs) =
     (if b then (case n of 0 \<Rightarrow> False # keep_first 0 bs | Suc k \<Rightarrow> True # keep_first k bs)
      else False # keep_first n bs)"

definition ex_img :: ndarray where
  "ex_img = \<lparr>shape = [3, 1, 2, 2], dtype = uint8,
     data = [0, 255, 51, 102, 10, 20, 30, 40, 250, 5, 0, 128]\<rparr>"

definition ex_state :: ndarray where
  "ex_state = \<lparr>shape = [3, 3], dtype = float64, data = [1, 2, 3, 4, 5, 6, 7, 8, 9]\<rparr>"

definition ex_action :: ndarray where
  "ex_action = \<lparr>shape = [3, 2], dtype = float64, data = [1, 0, 0, 1, 1, 1]\<rparr>"

definition ex_rb :: replay_buffer where
  "ex_rb = \<lparr>rb_data = [''img'' \<mapsto> ex_img, ''state'' \<mapsto> ex_state, ''action'' \<mapsto> ex_action],
     episode_ends = [1, 2, 3]\<rparr>"

text \<open>The store with one more field, \<^verbatim>\<open>valid_obs_mask\<close>, of contents \<open>v\<close>.\<close>

definition ex_rb_mask :: "real list \<Rightarrow> replay_buffer" where
  "ex_rb_mask v = ex_rb\<lparr>rb_data := (rb_data ex_rb)
     (''valid_obs_mask'' \<mapsto> \<lparr>shape = [length v], dtype = boolean, data = v\<rparr>)\<rparr>"

type_synonym ex_sampler = "replay_buffer \<times> int \<times> int \<times> int \<times> bool list"

definition ex_window :: "nat \<Rightarrow> nat \<Rightarrow> ndarray \<Rightarrow> ndarray" where
  "ex_window i n a =
     (let w = prod_list (tl (shape a))
      in a\<lparr>shape := n # tl (shape a), data := take (n * w) (drop (i * w) (data a))\<rparr>)"

fun ex_limits :: "ndarray pydict \<Rightarrow> real \<times> real" where
  "ex_limits (Leaf a) = (foldr min (data a) (hd (data a)), foldr max (data a) (hd (data a)))"
| "ex_limits (Dict kvs) = (0, 0)"

definition ex_ext :: "(ex_sampler, real \<times> real, unit) externals" where
  "ex_ext = \<lparr>
     copy_from_path = (\<lambda>path keys.
        if path = ''demo.zarr'' \<and> list_all (\<lambda>k. rb_data ex_rb k \<noteq> None) keys then Inr ex_rb
        else if path = ''masked.zarr''
                \<and> list_all (\<lambda>k. rb_data (ex_rb_mask [1, 1, 1]) k \<noteq> None) keys
        then Inr (ex_rb_mask [1, 1, 1])
        else Inl KeyError),
     get_val_mask = (\<lambda>n val_ratio seed. Inr (map (\<lambda>i. 0 < val_ratio \<and> i = 0) [0..<n])),
     downsample_mask = (\<lambda>mask max_n seed.
        case max_n of None \<Rightarrow> Inr mask
        | Some k \<Rightarrow> if k < 0 then Inl ValueError else Inr (keep_first (nat k) mask)),
     SequenceSampler = (\<lambda>rb sequence_length pb pa episode_mask.
        if sequence_length < 1 then Inl AssertionError
        else Inr (rb, sequence_length, pb, pa, episode_mask)),
     sample_sequence = (\<lambda>(rb, n, pb, pa, m) idx.
        if 0 \<le> idx \<and> idx + n \<le> 3
        then Inr (map_option (ex_window (nat idx) (nat n)) \<circ> rb_data rb)
        else Inl IndexError),
     sampler_len = (\<lambda>(rb, n, pb, pa, m). nat (4 - n)),
     fit = (\<lambda>d last_n_dims mode kw.
        case d of Leaf a \<Rightarrow> Inl TypeError
        | Dict kvs \<Rightarrow> Inr (map_of (map (\<lambda>(k, v). (k, ex_limits v)) kvs))),
     get_image_range_normalizer = (0, 1),
     rnd = (\<lambda>dt x. x)\<rparr>"

definition ex_dataset :: "ex_sampler dataset" where
  "ex_dataset = \<lparr>replay_buffer = ex_rb,
     sampler = (ex_rb, 2, 0, 0, [False, True, True]),
     train_mask = [False, True, True], horizon = 2, pad_before = 0, pad_after = 0\<rparr>"

definition ex_lowdim :: "ex_sampler lowdim_dataset" where
  "ex_lowdim = \<lparr>replay_buffer = ex_rb,
     sampler = (ex_rb, 2, 0, 0, [False, True, True]),
     train_mask = [False, True, True], horizon = 2, pad_before = 0, pad_after = 0,
     obs_key = ''img'', state_key = ''state'', action_key = ''action''\<rparr>"

text \<open>The lowdim dataset over the store with a \<^verbatim>\<open>valid_obs_mask\<close> field of contents \<open>v\<close>.\<close>

definition ex_lowdim_mask :: "real list \<Rightarrow> ex_sampler lowdim_dataset" where
  "ex_lowdim_mask v = \<lparr>replay_buffer = ex_rb_mask v,
     sampler = (ex_rb_mask v, 2, 0, 0, [False, True, True]),
     train_mask = [False, True, True], horizon = 2, pad_before = 0, pad_after = 0,
     obs_key = ''img'', state_key = ''state'', action_key = ''action''\<rparr>"

section \<open>Properties of the validation view\<close>

lemma invert_invert: "invert (invert m) = m"
  by (simp add: invert_def comp_def)

lemma length_invert: "length (invert m) = length m"
  by (simp add: invert_def)

lemma nth_invert: "i < length m \<Longrightarrow> invert m ! i = (\<not> m ! i)"
  by (simp add: invert_def)

lemma Image_get_validation_dataset_result:
  assumes "Image_get_validation_dataset ext h self = Inr (h', v)"
  shows "self < length h \<and> v = length h
    \<and> (\<exists>s. SequenceSampler ext (replay_buffer (h ! self)) (horizon (h ! self))
              (pad_before (h ! self)) (pad_after (h ! self)) (invert (train_mask (h ! self))) = Inr s
         \<and> h' = h @ [(h ! self)\<lparr>sampler := s, train_mask := invert (train_mask (h ! self))\<rparr>])"
  using assms
  by (auto simp: Image_get_validation_dataset_def Let_def nth_append split: if_splits sum.splits)

lemma Lowdim_get_validation_dataset_result:
  assumes "Lowdim_get_validation_dataset ext h self = Inr (h', v)"
  shows "self < length h \<and> v = length h
    \<and> (\<exists>s. SequenceSampler ext (replay_buffer (h ! self)) (horizon (h ! self))
              (pad_before (h ! self)) (pad_after (h ! self)) (invert (train_mask (h ! self))) = Inr s
         \<and> h' = h @ [(h ! self)\<lparr>sampler := s, train_mask := invert (train_mask (h ! self))\<rparr>])"
  using assms
  by (auto simp: Lowdim_get_validation_dataset_def Let_def nth_append split: if_splits sum.splits)

lemma Image_get_validation_dataset_returns:
  assumes "self < length h"
    and "SequenceSampler ext (replay_buffer (h ! self)) (horizon (h ! self))
           (pad_before (h ! self)) (pad_after (h ! self)) (invert (train_mask (h ! self))) = Inr s"
  shows "Image_get_validation_dataset ext h self =
     Inr (h @ [(h ! self)\<lparr>sampler := s, train_mask := invert (train_mask (h ! self))\<rparr>], length h)"
  using assms by (simp add: Image_get_validation_dataset_def Let_def nth_append)

lemma Lowdim_get_validation_dataset_returns:
  assumes "self < length h"
    and "SequenceSampler ext (replay_buffer (h ! self)) (horizon (h ! self))
           (pad_before (h ! self)) (pad_after (h ! self)) (invert (train_mask (h ! self))) = Inr s"
  shows "Lowdim_get_validation_dataset ext h self =
     Inr (h @ [(h ! self)\<lparr>sampler := s, train_mask := invert (train_mask (h ! self))\<rparr>], length h)"
  using assms by (simp add: Lowdim_get_validation_dataset_def Let_def nth_append)

text \<open>
  C1. \<^verbatim>\<open>get_validation_dataset\<close> of either adapter returns whenever \<^verbatim>\<open>SequenceSampler\<close>
  builds the sampler over the complement mask, and what it returns is a new object whose
  \<open>train_mask\<close> is the element-wise complement of the caller's: the two masks have the
  same length and at every episode exactly one of them is set. Every object that
  existed before the call is left as it was; in particular the caller keeps its
  \<open>train_mask\<close> and its \<open>sampler\<close>.
\<close>

theorem get_validation_dataset_complement:
  "(Image_get_validation_dataset ext h self = Inr (h', v) \<longrightarrow>
      length h \<le> v \<and> v < length h' \<and> self < length h
    \<and> train_mask (h' ! v) = invert (train_mask (h ! self))
    \<and> length (train_mask (h' ! v)) = length (train_mask (h ! self))
    \<and> (\<forall>i < length (train_mask (h ! self)).
          train_mask (h' ! v) ! i = (\<not> train_mask (h ! self) ! i))
    \<and> (\<forall>a < length h. h' ! a = h ! a)
    \<and> train_mask (h' ! self) = train_mask (h ! self)
    \<and> sampler (h' ! self) = sampler (h ! self))
 \<and> (self < length h
    \<and> SequenceSampler ext (replay_buffer (h ! self)) (horizon (h ! self))
          (pad_before (h ! self)) (pad_after (h ! self)) (invert (train_mask (h ! self))) = Inr s
    \<longrightarrow> (\<exists>r. Image_get_validation_dataset ext h self = Inr r))
 \<and> (selfl < length hl
    \<and> SequenceSampler ext (replay_buffer (hl ! selfl)) (horizon (hl ! selfl))
          (pad_before (hl ! selfl)) (pad_after (hl ! selfl)) (invert (train_mask (hl ! selfl))) = Inr sl
    \<longrightarrow> (\<exists>r. Lowdim_get_validation_dataset ext hl selfl = Inr r))
 \<and> (Lowdim_get_validation_dataset ext hl selfl = Inr (hl', vl) \<longrightarrow>
      length hl \<le> vl \<and> vl < length hl' \<and> selfl < length hl
    \<and> train_mask (hl' ! vl) = invert (train_mask (hl ! selfl))
    \<and> length (train_mask (hl' ! vl)) = length (train_mask (hl ! selfl))
    \<and> (\<forall>i < length (train_mask (hl ! selfl)).
          train_mask (hl' ! vl) ! i = (\<not> train_mask (hl ! selfl) ! i))
    \<and> (\<forall>a < length hl. hl' ! a = hl ! a)
    \<and> train_mask (hl' ! selfl) = train_mask (hl ! selfl)
    \<and> sampler (hl' ! selfl) = sampler (hl ! selfl))"
proof (intro conjI impI)
  assume r: "Image_get_validation_dataset ext h self = Inr (h', v)"
  note f = Image_get_validation_dataset_result [OF r]
  from f show "length h \<le> v" "v < length h'" "self < length h" by auto
  from f show m: "train_mask (h' ! v) = invert (train_mask (h ! self))" by auto
  show "length (train_mask (h' ! v)) = length (train_mask (h ! self))"
    by (simp add: m length_invert)
  show "\<forall>i < length (train_mask (h ! self)).
          train_mask (h' ! v) ! i = (\<not> train_mask (h ! self) ! i)"
    by (simp add: m nth_invert)
  from f show "\<forall>a < length h. h' ! a = h ! a" by (auto simp: nth_append)
  from f show "train_mask (h' ! self) = train_mask (h ! self)" by (auto simp: nth_append)
  from f show "sampler (h' ! self) = sampler (h ! self)" by (auto simp: nth_append)
next
  assume "self < length h
    \<and> SequenceSampler ext (replay_buffer (h ! self)) (horizon (h ! self))
          (pad_before (h ! self)) (pad_after (h ! self)) (invert (train_mask (h ! self))) = Inr s"
  then show "\<exists>r. Image_get_validation_dataset ext h self = Inr r"
    by (simp add: Image_get_validation_dataset_returns)
next
  assume "selfl < length hl
    \<and> SequenceSampler ext (replay_buffer (hl ! selfl)) (horizon (hl ! selfl))
          (pad_before (hl ! selfl)) (pad_after (hl ! selfl)) (invert (train_mask (hl ! selfl))) = Inr sl"
  then show "\<exists>r. Lowdim_get_validation_dataset ext hl selfl = Inr r"
    by (simp add: Lowdim_get_validation_dataset_returns)
next
  assume r: "Lowdim_get_validation_dataset ext hl selfl = Inr (hl', vl)"
  note f = Lowdim_get_validation_dataset_result [OF r]
  from f show "length hl \<le> vl" "vl < length hl'" "selfl < length hl" by auto
  from f show m: "train_mask (hl' ! vl) = invert (train_mask (hl ! selfl))" by auto
  show "length (train_mask (hl' ! vl)) = length (train_mask (hl ! selfl))"
    by (simp add: m length_invert)
  show "\<forall>i < length (train_mask (hl ! selfl)).
          train_mask (hl' ! vl) ! i = (\<not> train_mask (hl ! selfl) ! i)"
    by (simp add: m nth_invert)
  from f show "\<forall>a < length hl. hl' ! a = hl ! a" by (auto simp: nth_append)
  from f show "train_mask (hl' ! selfl) = train_mask (hl ! selfl)" by (auto simp: nth_append)
  from f show "sampler (hl' ! selfl) = sampler (hl ! selfl)" by (auto simp: nth_append)
qed

theorem get_validation_dataset_complement_witness:
  "Image_get_validation_dataset ex_ext [ex_dataset] 0 =
     Inr ([ex_dataset, ex_dataset\<lparr>sampler := (ex_rb, 2, 0, 0, [True, False, False]),
                                   train_mask := [True, False, False]\<rparr>], 1)
 \<and> Lowdim_get_validation_dataset ex_ext [ex_lowdim] 0 =
     Inr ([ex_lowdim, ex_lowdim\<lparr>sampler := (ex_rb, 2, 0, 0, [True, False, False]),
                                 train_mask := [True, False, False]\<rparr>], 1)
 \<and> train_mask ([ex_dataset, ex_dataset\<lparr>sampler := (ex_rb, 2, 0, 0, [True, False, False]),
                   train_mask := [True, False, False]\<rparr>] ! 1) = invert (train_mask ([ex_dataset] ! 0))
 \<and> sampler ([ex_dataset, ex_dataset\<lparr>sampler := (ex_rb, 2, 0, 0, [True, False, False]),
                   train_mask := [True, False, False]\<rparr>] ! 0) = sampler ([ex_dataset] ! 0)
 \<and> train_mask ([ex_lowdim, ex_lowdim\<lparr>sampler := (ex_rb, 2, 0, 0, [True, False, False]),
                   train_mask := [True, False, False]\<rparr>] ! 1) = invert (train_mask ([ex_lowdim] ! 0))
 \<and> sampler ([ex_lowdim, ex_lowdim\<lparr>sampler := (ex_rb, 2, 0, 0, [True, False, False]),
                   train_mask := [True, False, False]\<rparr>] ! 0) = sampler ([ex_lowdim] ! 0)"
proof -
  let ?hI = "[ex_dataset, ex_dataset\<lparr>sampler := (ex_rb, 2, 0, 0, [True, False, False]),
                                     train_mask := [True, False, False]\<rparr>]"
  let ?hL = "[ex_lowdim, ex_lowdim\<lparr>sampler := (ex_rb, 2, 0, 0, [True, False, False]),
                                   train_mask := [True, False, False]\<rparr>]"
  have rI: "Image_get_validation_dataset ex_ext [ex_dataset] 0 = Inr (?hI, 1)"
    by (simp add: Image_get_validation_dataset_def ex_ext_def ex_dataset_def invert_def)
  have rL: "Lowdim_get_validation_dataset ex_ext [ex_lowdim] 0 = Inr (?hL, 1)"
    by (simp add: Lowdim_get_validation_dataset_def ex_ext_def ex_lowdim_def invert_def)
  from get_validation_dataset_complement
         [where ext = ex_ext and h = "[ex_dataset]" and self = 0 and h' = ?hI and v = 1
            and hl = "[ex_lowdim]" and selfl = 0 and hl' = ?hL and vl = 1] rI rL
  show ?thesis by blast
qed

text \<open>
  C10. Deriving the validation view of a validation view gives back the mask: the
  \<open>train_mask\<close> of the second view is the \<open>train_mask\<close> of the first caller, and its
  sampler is the one \<^verbatim>\<open>SequenceSampler\<close> builds over the caller's replay buffer, horizon,
  \<open>pad_before\<close>, \<open>pad_after\<close> and that mask; the second view keeps these attributes too.
\<close>

theorem get_validation_dataset_round_trip:
  "(Image_get_validation_dataset ext h self = Inr (h1, v1)
    \<and> Image_get_validation_dataset ext h1 v1 = Inr (h2, v2) \<longrightarrow>
      train_mask (h2 ! v2) = train_mask (h ! self)
    \<and> SequenceSampler ext (replay_buffer (h ! self)) (horizon (h ! self))
        (pad_before (h ! self)) (pad_after (h ! self)) (train_mask (h ! self))
        = Inr (sampler (h2 ! v2))
    \<and> replay_buffer (h2 ! v2) = replay_buffer (h ! self)
    \<and> horizon (h2 ! v2) = horizon (h ! self)
    \<and> pad_before (h2 ! v2) = pad_before (h ! self)
    \<and> pad_after (h2 ! v2) = pad_after (h ! self))
 \<and> (Lowdim_get_validation_dataset ext hl selfl = Inr (hl1, vl1)
    \<and> Lowdim_get_validation_dataset ext hl1 vl1 = Inr (hl2, vl2) \<longrightarrow>
      train_mask (hl2 ! vl2) = train_mask (hl ! selfl)
    \<and> SequenceSampler ext (replay_buffer (hl ! selfl)) (horizon (hl ! selfl))
        (pad_before (hl ! selfl)) (pad_after (hl ! selfl)) (train_mask (hl ! selfl))
        = Inr (sampler (hl2 ! vl2))
    \<and> replay_buffer (hl2 ! vl2) = replay_buffer (hl ! selfl)
    \<and> horizon (hl2 ! vl2) = horizon (hl ! selfl)
    \<and> pad_before (hl2 ! vl2) = pad_before (hl ! selfl)
    \<and> pad_after (hl2 ! vl2) = pad_after (hl ! selfl))"
proof (intro conjI impI; elim conjE)
  assume a: "Image_get_validation_dataset ext h self = Inr (h1, v1)"
     and b: "Image_get_validation_dataset ext h1 v1 = Inr (h2, v2)"
  from Image_get_validation_dataset_result [OF a] obtain s where
    s: "self < length h" "v1 = length h"
       "h1 = h @ [(h ! self)\<lparr>sampler := s, train_mask := invert (train_mask (h ! self))\<rparr>]"
    by blast
  have d1: "h1 ! v1 = (h ! self)\<lparr>sampler := s, train_mask := invert (train_mask (h ! self))\<rparr>"
    by (simp add: s)
  from Image_get_validation_dataset_result [OF b] obtain s' where
    s': "v2 = length h1"
        "SequenceSampler ext (replay_buffer (h1 ! v1)) (horizon (h1 ! v1))
           (pad_before (h1 ! v1)) (pad_after (h1 ! v1)) (invert (train_mask (h1 ! v1))) = Inr s'"
        "h2 = h1 @ [(h1 ! v1)\<lparr>sampler := s', train_mask := invert (train_mask (h1 ! v1))\<rparr>]"
    by blast
  have d2: "h2 ! v2 = (h1 ! v1)\<lparr>sampler := s', train_mask := invert (train_mask (h1 ! v1))\<rparr>"
    by (simp add: s')
  show "train_mask (h2 ! v2) = train_mask (h ! self)"
    by (simp add: d2 d1 invert_invert)
  show "SequenceSampler ext (replay_buffer (h ! self)) (horizon (h ! self))
        (pad_before (h ! self)) (pad_after (h ! self)) (train_mask (h ! self))
        = Inr (sampler (h2 ! v2))"
    using s'(2) by (simp add: d2 d1 invert_invert)
  show "replay_buffer (h2 ! v2) = replay_buffer (h ! self)" by (simp add: d2 d1)
  show "horizon (h2 ! v2) = horizon (h ! self)" by (simp add: d2 d1)
  show "pad_before (h2 ! v2) = pad_before (h ! self)" by (simp add: d2 d1)
  show "pad_after (h2 ! v2) = pad_after (h ! self)" by (simp add: d2 d1)
next
  assume a: "Lowdim_get_validation_dataset ext hl selfl = Inr (hl1, vl1)"
     and b: "Lowdim_get_validation_dataset ext hl1 vl1 = Inr (hl2, vl2)"
  from Lowdim_get_validation_dataset_result [OF a] obtain s where
    s: "selfl < length hl" "vl1 = length hl"
       "hl1 = hl @ [(hl ! selfl)\<lparr>sampler := s, train_mask := invert (train_mask (hl ! selfl))\<rparr>]"
    by blast
  have d1: "hl1 ! vl1 = (hl ! selfl)\<lparr>sampler := s, train_mask := invert (train_mask (hl ! selfl))\<rparr>"
    by (simp add: s)
  from Lowdim_get_validation_dataset_result [OF b] obtain s' where
    s': "vl2 = length hl1"
        "SequenceSampler ext (replay_buffer (hl1 ! vl1)) (horizon (hl1 ! vl1))
           (pad_before (hl1 ! vl1)) (pad_after (hl1 ! vl1)) (invert (train_mask (hl1 ! vl1))) = Inr s'"
        "hl2 = hl1 @ [(hl1 ! vl1)\<lparr>sampler := s', train_mask := invert (train_mask (hl1 ! vl1))\<rparr>]"
    by blast
  have d2: "hl2 ! vl2 = (hl1 ! vl1)\<lparr>sampler := s', train_mask := invert (train_mask (hl1 ! vl1))\<rparr>"
    by (simp add: s')
  show "train_mask (hl2 ! vl2) = train_mask (hl ! selfl)"
    by (simp add: d2 d1 invert_invert)
  show "SequenceSampler ext (replay_buffer (hl ! selfl)) (horizon (hl ! selfl))
        (pad_before (hl ! selfl)) (pad_after (hl ! selfl)) (train_mask (hl ! selfl))
        = Inr (sampler (hl2 ! vl2))"
    using s'(2) by (simp add: d2 d1 invert_invert)
  show "replay_buffer (hl2 ! vl2) = replay_buffer (hl ! selfl)" by (simp add: d2 d1)
  show "horizon (hl2 ! vl2) = horizon (hl ! selfl)" by (simp add: d2 d1)
  show "pad_before (hl2 ! vl2) = pad_before (hl ! selfl)" by (simp add: d2 d1)
  show "pad_after (hl2 ! vl2) = pad_after (hl ! selfl)" by (simp add: d2 d1)
qed

theorem get_validation_dataset_round_trip_witness:
  "Image_get_validation_dataset ex_ext [ex_dataset] 0 =
     Inr ([ex_dataset, ex_dataset\<lparr>sampler := (ex_rb, 2, 0, 0, [True, False, False]),
                                   train_mask := [True, False, False]\<rparr>], 1)
 \<and> (\<exists>h2. Image_get_validation_dataset ex_ext
       [ex_dataset, ex_dataset\<lparr>sampler := (ex_rb, 2, 0, 0, [True, False, False]),
                                train_mask := [True, False, False]\<rparr>] 1 = Inr (h2, 2)
      \<and> train_mask (h2 ! 2) = train_mask ([ex_dataset] ! 0)
      \<and> sampler (h2 ! 2) = (ex_rb, 2, 0, 0, [False, True, True]))
 \<and> Lowdim_get_validation_dataset ex_ext [ex_lowdim] 0 =
     Inr ([ex_lowdim, ex_lowdim\<lparr>sampler := (ex_rb, 2, 0, 0, [True, False, False]),
                                 train_mask := [True, False, False]\<rparr>], 1)
 \<and> (\<exists>h2. Lowdim_get_validation_dataset ex_ext
       [ex_lowdim, ex_lowdim\<lparr>sampler := (ex_rb, 2, 0, 0, [True, False, False]),
                              train_mask := [True, False, False]\<rparr>] 1 = Inr (h2, 2)
      \<and> train_mask (h2 ! 2) = train_mask ([ex_lowdim] ! 0)
      \<and> sampler (h2 ! 2) = (ex_rb, 2, 0, 0, [False, True, True]))"
proof -
  let ?vI = "ex_dataset\<lparr>sampler := (ex_rb, 2, 0, 0, [True, False, False]),
                          train_mask := [True, False, False]\<rparr>"
  let ?vL = "ex_lowdim\<lparr>sampler := (ex_rb, 2, 0, 0, [True, False, False]),
                         train_mask := [True, False, False]\<rparr>"
  let ?h2I = "[ex_dataset, ?vI, ?vI\<lparr>sampler := (ex_rb, 2, 0, 0, [False, True, True]),
                                    train_mask := [False, True, True]\<rparr>]"
  let ?h2L = "[ex_lowdim, ?vL, ?vL\<lparr>sampler := (ex_rb, 2, 0, 0, [False, True, True]),
                                   train_mask := [False, True, True]\<rparr>]"
  have aI: "Image_get_validation_dataset ex_ext [ex_dataset] 0 = Inr ([ex_dataset, ?vI], 1)"
    by (simp add: Image_get_validation_dataset_def ex_ext_def ex_dataset_def invert_def)
  have bI: "Image_get_validation_dataset ex_ext [ex_dataset, ?vI] 1 = Inr (?h2I, 2)"
    by (simp add: Image_get_validation_dataset_def ex_ext_def ex_dataset_def invert_def)
  have aL: "Lowdim_get_validation_dataset ex_ext [ex_lowdim] 0 = Inr ([ex_lowdim, ?vL], 1)"
    by (simp add: Lowdim_get_validation_dataset_def ex_ext_def ex_lowdim_def invert_def)
  have bL: "Lowdim_get_validation_dataset ex_ext [ex_lowdim, ?vL] 1 = Inr (?h2L, 2)"
    by (simp add: Lowdim_get_validation_dataset_def ex_ext_def ex_lowdim_def invert_def)
  from get_validation_dataset_round_trip
         [of ex_ext "[ex_dataset]" 0 "[ex_dataset, ?vI]" 1 ?h2I 2
             "[ex_lowdim]" 0 "[ex_lowdim, ?vL]" 1 ?h2L 2] aI bI aL bL
  have "train_mask (?h2I ! 2) = train_mask ([ex_dataset] ! 0)"
       "train_mask (?h2L ! 2) = train_mask ([ex_lowdim] ! 0)"
    by blast+
  with aI bI aL bL show ?thesis by simp
qed

section \<open>Construction of the train mask\<close>

lemma Image_init_result:
  assumes "Image_init ext zarr_path hz pb pa seed val_ratio mte = Inr d"
  shows "\<exists>rb val_mask s.
      copy_from_path ext zarr_path [''img'', ''state'', ''action''] = Inr rb
    \<and> get_val_mask ext (n_episodes rb) val_ratio seed = Inr val_mask
    \<and> downsample_mask ext (invert val_mask) mte seed = Inr (train_mask d)
    \<and> SequenceSampler ext rb hz pb pa (train_mask d) = Inr s
    \<and> d = \<lparr>replay_buffer = rb, sampler = s, train_mask = train_mask d,
            horizon = hz, pad_before = pb, pad_after = pa\<rparr>"
  using assms by (auto simp: Image_init_def split: sum.splits)

lemma Lowdim_init_result:
  assumes "Lowdim_init ext zarr_path hz pb pa ok sk ak mk seed val_ratio mte = Inr d"
  shows "\<exists>rb val_mask s.
      copy_from_path ext zarr_path [ok, sk, ak, mk] = Inr rb
    \<and> get_val_mask ext (n_episodes rb) val_ratio seed = Inr val_mask
    \<and> downsample_mask ext (invert val_mask) mte seed = Inr (train_mask d)
    \<and> SequenceSampler ext rb hz pb pa (train_mask d) = Inr s
    \<and> d = \<lparr>replay_buffer = rb, sampler = s, train_mask = train_mask d,
            horizon = hz, pad_before = pb, pad_after = pa,
            obs_key = ok, state_key = sk, action_key = ak\<rparr>"
  using assms by (auto simp: Lowdim_init_def split: sum.splits)

lemma length_keep_first: "length (keep_first n bs) = length bs"
  by (induction bs arbitrary: n) (auto split: nat.splits)

lemma keep_first_sub: "i < length bs \<Longrightarrow> keep_first n bs ! i \<Longrightarrow> bs ! i"
proof (induction bs arbitrary: n i)
  case Nil
  then show ?case by simp
next
  case (Cons b bs)
  then show ?case by (cases i) (auto split: nat.splits if_splits)
qed

lemma count_keep_first: "count_list (keep_first n bs) True \<le> n"
proof (induction bs arbitrary: n)
  case Nil
  then show ?case by simp
next
  case (Cons b bs)
  show ?case
  proof (cases "b")
    case False
    with Cons show ?thesis by simp
  next
    case True
    show ?thesis
    proof (cases n)
      case 0
      with True Cons [of 0] show ?thesis by simp
    next
      case (Suc k)
      with True Cons [of k] show ?thesis by simp
    qed
  qed
qed

lemma ex_downsample_mask_contract:
  assumes "downsample_mask ex_ext m k sd = Inr m'"
  shows "length m' = length m \<and> (\<forall>i < length m. m' ! i \<longrightarrow> m ! i)
       \<and> (\<forall>n. k = Some n \<longrightarrow> int (count_list m' True) \<le> n)"
proof (cases k)
  case None
  with assms show ?thesis by (simp add: ex_ext_def)
next
  case (Some n)
  with assms have n: "0 \<le> n" and m': "m' = keep_first (nat n) m"
    by (auto simp: ex_ext_def split: if_splits)
  have "count_list m' True \<le> nat n" unfolding m' by (rule count_keep_first)
  with n have "int (count_list m' True) \<le> n" by linarith
  with Some m' show ?thesis by (auto simp: length_keep_first intro: keep_first_sub)
qed

lemma ex_Image_init:
  "Image_init ex_ext ''demo.zarr'' 2 0 0 42 (3 / 10) (Some 1) =
     Inr \<lparr>replay_buffer = ex_rb, sampler = (ex_rb, 2, 0, 0, [False, True, False]),
          train_mask = [False, True, False], horizon = 2, pad_before = 0, pad_after = 0\<rparr>"
  by (simp add: Image_init_def ex_ext_def ex_rb_def n_episodes_def invert_def upt_rec)

lemma ex_Image_init':
  "Image_init ex_ext ''demo.zarr'' 1 1 0 42 (3 / 10) (Some 1) =
     Inr \<lparr>replay_buffer = ex_rb, sampler = (ex_rb, 1, 1, 0, [False, True, False]),
          train_mask = [False, True, False], horizon = 1, pad_before = 1, pad_after = 0\<rparr>"
  by (simp add: Image_init_def ex_ext_def ex_rb_def n_episodes_def invert_def upt_rec)

lemma ex_Lowdim_init:
  "Lowdim_init ex_ext ''demo.zarr'' 2 0 0 ''img'' ''state'' ''action'' ''img'' 42 (3 / 10) (Some 1) =
     Inr \<lparr>replay_buffer = ex_rb, sampler = (ex_rb, 2, 0, 0, [False, True, False]),
          train_mask = [False, True, False], horizon = 2, pad_before = 0, pad_after = 0,
          obs_key = ''img'', state_key = ''state'', action_key = ''action''\<rparr>"
  by (simp add: Lowdim_init_def ex_ext_def ex_rb_def n_episodes_def invert_def upt_rec)

lemma ex_Lowdim_init':
  "Lowdim_init ex_ext ''demo.zarr'' 1 1 0 ''state'' ''state'' ''action'' ''img'' 42 (3 / 10) (Some 1) =
     Inr \<lparr>replay_buffer = ex_rb, sampler = (ex_rb, 1, 1, 0, [False, True, False]),
          train_mask = [False, True, False], horizon = 1, pad_before = 1, pad_after = 0,
          obs_key = ''state'', state_key = ''state'', action_key = ''action''\<rparr>"
  by (simp add: Lowdim_init_def ex_ext_def ex_rb_def n_episodes_def invert_def upt_rec)

text \<open>
  C4. Two constructions of the same adapter class with the same \<open>seed\<close>, \<open>val_ratio\<close>
  and \<open>max_train_episodes\<close>, over stores with the same number of episodes (in particular
  over the same store), have the same \<open>train_mask\<close>, whatever the horizon, the padding
  and (for the lowdim adapter) the field names of each.
\<close>

theorem train_mask_deterministic:
  "(Image_init ext path1 hz1 pb1 pa1 seed val_ratio mte = Inr d1
    \<and> Image_init ext path2 hz2 pb2 pa2 seed val_ratio mte = Inr d2
    \<and> n_episodes (replay_buffer d1) = n_episodes (replay_buffer d2)
    \<longrightarrow> train_mask d1 = train_mask d2)
 \<and> (Lowdim_init ext lpath1 lhz1 lpb1 lpa1 ok1 sk1 ak1 mk1 seed val_ratio mte = Inr l1
    \<and> Lowdim_init ext lpath2 lhz2 lpb2 lpa2 ok2 sk2 ak2 mk2 seed val_ratio mte = Inr l2
    \<and> n_episodes (replay_buffer l1) = n_episodes (replay_buffer l2)
    \<longrightarrow> train_mask l1 = train_mask l2)"
proof (intro conjI impI; elim conjE)
  assume a: "Image_init ext path1 hz1 pb1 pa1 seed val_ratio mte = Inr d1"
     and b: "Image_init ext path2 hz2 pb2 pa2 seed val_ratio mte = Inr d2"
     and n: "n_episodes (replay_buffer d1) = n_episodes (replay_buffer d2)"
  from Image_init_result [OF a] obtain rb1 vm1 s1 where
    1: "get_val_mask ext (n_episodes rb1) val_ratio seed = Inr vm1"
       "downsample_mask ext (invert vm1) mte seed = Inr (train_mask d1)"
       "d1 = \<lparr>replay_buffer = rb1, sampler = s1, train_mask = train_mask d1,
              horizon = hz1, pad_before = pb1, pad_after = pa1\<rparr>"
    by blast
  from Image_init_result [OF b] obtain rb2 vm2 s2 where
    2: "get_val_mask ext (n_episodes rb2) val_ratio seed = Inr vm2"
       "downsample_mask ext (invert vm2) mte seed = Inr (train_mask d2)"
       "d2 = \<lparr>replay_buffer = rb2, sampler = s2, train_mask = train_mask d2,
              horizon = hz2, pad_before = pb2, pad_after = pa2\<rparr>"
    by blast
  have "replay_buffer d1 = rb1" "replay_buffer d2 = rb2"
    by (subst 1(3), simp) (subst 2(3), simp)
  with n have "n_episodes rb1 = n_episodes rb2" by simp
  with 1(1) 2(1) have "vm1 = vm2" by simp
  with 1(2) 2(2) show "train_mask d1 = train_mask d2" by simp
next
  assume a: "Lowdim_init ext lpath1 lhz1 lpb1 lpa1 ok1 sk1 ak1 mk1 seed val_ratio mte = Inr l1"
     and b: "Lowdim_init ext lpath2 lhz2 lpb2 lpa2 ok2 sk2 ak2 mk2 seed val_ratio mte = Inr l2"
     and n: "n_episodes (replay_buffer l1) = n_episodes (replay_buffer l2)"
  from Lowdim_init_result [OF a] obtain rb1 vm1 s1 where
    1: "get_val_mask ext (n_episodes rb1) val_ratio seed = Inr vm1"
       "downsample_mask ext (invert vm1) mte seed = Inr (train_mask l1)"
       "l1 = \<lparr>replay_buffer = rb1, sampler = s1, train_mask = train_mask l1,
              horizon = lhz1, pad_before = lpb1, pad_after = lpa1,
              obs_key = ok1, state_key = sk1, action_key = ak1\<rparr>"
    by blast
  from Lowdim_init_result [OF b] obtain rb2 vm2 s2 where
    2: "get_val_mask ext (n_episodes rb2) val_ratio seed = Inr vm2"
       "downsample_mask ext (invert vm2) mte seed = Inr (train_mask l2)"
       "l2 = \<lparr>replay_buffer = rb2, sampler = s2, train_mask = train_mask l2,
              horizon = lhz2, pad_before = lpb2, pad_after = lpa2,
              obs_key = ok2, state_key = sk2, action_key = ak2\<rparr>"
    by blast
  have "replay_buffer l1 = rb1" "replay_buffer l2 = rb2"
    by (subst 1(3), simp) (subst 2(3), simp)
  with n have "n_episodes rb1 = n_episodes rb2" by simp
  with 1(1) 2(1) have "vm1 = vm2" by simp
  with 1(2) 2(2) show "train_mask l1 = train_mask l2" by simp
qed

theorem train_mask_deterministic_witness:
  "(\<exists>d1 d2. Image_init ex_ext ''demo.zarr'' 2 0 0 42 (3 / 10) (Some 1) = Inr d1
      \<and> Image_init ex_ext ''demo.zarr'' 1 1 0 42 (3 / 10) (Some 1) = Inr d2
      \<and> n_episodes (replay_buffer d1) = n_episodes (replay_buffer d2)
      \<and> sampler d1 \<noteq> sampler d2
      \<and> train_mask d1 = train_mask d2)
 \<and> (\<exists>l1 l2. Lowdim_init ex_ext ''demo.zarr'' 2 0 0 ''img'' ''state'' ''action'' ''img'' 42 (3 / 10) (Some 1) = Inr l1
      \<and> Lowdim_init ex_ext ''demo.zarr'' 1 1 0 ''state'' ''state'' ''action'' ''img'' 42 (3 / 10) (Some 1) = Inr l2
      \<and> n_episodes (replay_buffer l1) = n_episodes (replay_buffer l2)
      \<and> sampler l1 \<noteq> sampler l2
      \<and> train_mask l1 = train_mask l2)"
proof -
  let ?d1 = "\<lparr>replay_buffer = ex_rb, sampler = (ex_rb, 2, 0, 0, [False, True, False]),
          train_mask = [False, True, False], horizon = 2, pad_before = 0, pad_after = 0\<rparr>
          :: ex_sampler dataset"
  let ?d2 = "\<lparr>replay_buffer = ex_rb, sampler = (ex_rb, 1, 1, 0, [False, True, False]),
          train_mask = [False, True, False], horizon = 1, pad_before = 1, pad_after = 0\<rparr>
          :: ex_sampler dataset"
  let ?l1 = "\<lparr>replay_buffer = ex_rb, sampler = (ex_rb, 2, 0, 0, [False, True, False]),
          train_mask = [False, True, False], horizon = 2, pad_before = 0, pad_after = 0,
          obs_key = ''img'', state_key = ''state'', action_key = ''action''\<rparr>
          :: ex_sampler lowdim_dataset"
  let ?l2 = "\<lparr>replay_buffer = ex_rb, sampler = (ex_rb, 1, 1, 0, [False, True, False]),
          train_mask = [False, True, False], horizon = 1, pad_before = 1, pad_after = 0,
          obs_key = ''state'', state_key = ''state'', action_key = ''action''\<rparr>
          :: ex_sampler lowdim_dataset"
  have n: "n_episodes (replay_buffer ?d1) = n_episodes (replay_buffer ?d2)"
          "n_episodes (replay_buffer ?l1) = n_episodes (replay_buffer ?l2)"
    by simp_all
  from train_mask_deterministic
         [of ex_ext "''demo.zarr''" 2 0 0 42 "3 / 10" "Some 1" ?d1 "''demo.zarr''" 1 1 0 ?d2
             "''demo.zarr''" 2 0 0 "''img''" "''state''" "''action''" "''img''" ?l1
             "''demo.zarr''" 1 1 0 "''state''" "''state''" "''action''" "''img''" ?l2]
       ex_Image_init ex_Image_init' ex_Lowdim_init ex_Lowdim_init' n
  have "train_mask ?d1 = train_mask ?d2" "train_mask ?l1 = train_mask ?l2"
    by blast+
  with ex_Image_init ex_Image_init' ex_Lowdim_init ex_Lowdim_init' show ?thesis
    by simp
qed

text \<open>
  C5. Either constructor takes the complement of the mask \<^verbatim>\<open>get_val_mask\<close> returns for
  the store's number of episodes and hands it to \<^verbatim>\<open>downsample_mask\<close> with
  \<open>max_train_episodes\<close> and the seed; the result is the \<open>train_mask\<close>. Under the
  contract of \<^verbatim>\<open>downsample_mask\<close> (the result selects a subset of the mask it is given,
  of at most \<open>max_n\<close> episodes when \<open>max_n\<close> is given), no episode of the \<open>train_mask\<close>
  is in the validation mask, and at most \<open>max_train_episodes\<close> episodes are selected.
\<close>

theorem train_mask_complement_then_downsample:
  assumes contract: "\<And>m k sd m'. downsample_mask ext m k sd = Inr m' \<Longrightarrow>
      length m' = length m \<and> (\<forall>i < length m. m' ! i \<longrightarrow> m ! i)
    \<and> (\<forall>n. k = Some n \<longrightarrow> int (count_list m' True) \<le> n)"
  shows "(Image_init ext path hz pb pa seed val_ratio mte = Inr d \<longrightarrow>
      (\<exists>rb val_mask.
          copy_from_path ext path [''img'', ''state'', ''action''] = Inr rb
        \<and> replay_buffer d = rb
        \<and> get_val_mask ext (n_episodes rb) val_ratio seed = Inr val_mask
        \<and> downsample_mask ext (invert val_mask) mte seed = Inr (train_mask d)
        \<and> length (train_mask d) = length val_mask
        \<and> (\<forall>i < length val_mask. train_mask d ! i \<longrightarrow> \<not> val_mask ! i)
        \<and> (\<forall>n. mte = Some n \<longrightarrow> int (count_list (train_mask d) True) \<le> n)))
   \<and> (Lowdim_init ext lpath lhz lpb lpa ok sk ak mk seed val_ratio mte = Inr l \<longrightarrow>
      (\<exists>rb val_mask.
          copy_from_path ext lpath [ok, sk, ak, mk] = Inr rb
        \<and> replay_buffer l = rb
        \<and> get_val_mask ext (n_episodes rb) val_ratio seed = Inr val_mask
        \<and> downsample_mask ext (invert val_mask) mte seed = Inr (train_mask l)
        \<and> length (train_mask l) = length val_mask
        \<and> (\<forall>i < length val_mask. train_mask l ! i \<longrightarrow> \<not> val_mask ! i)
        \<and> (\<forall>n. mte = Some n \<longrightarrow> int (count_list (train_mask l) True) \<le> n)))"
proof (intro conjI impI)
  assume a: "Image_init ext path hz pb pa seed val_ratio mte = Inr d"
  from Image_init_result [OF a] obtain rb vm s where
    r: "copy_from_path ext path [''img'', ''state'', ''action''] = Inr rb"
       "get_val_mask ext (n_episodes rb) val_ratio seed = Inr vm"
       "downsample_mask ext (invert vm) mte seed = Inr (train_mask d)"
       "d = \<lparr>replay_buffer = rb, sampler = s, train_mask = train_mask d,
              horizon = hz, pad_before = pb, pad_after = pa\<rparr>"
    by blast
  have rb: "replay_buffer d = rb" by (subst r(4)) simp
  from contract [OF r(3)] have
    c: "length (train_mask d) = length vm"
       "\<forall>i < length vm. train_mask d ! i \<longrightarrow> \<not> vm ! i"
       "\<forall>n. mte = Some n \<longrightarrow> int (count_list (train_mask d) True) \<le> n"
    by (simp_all add: length_invert nth_invert)
  from r(1,2,3) rb c show "\<exists>rb val_mask.
          copy_from_path ext path [''img'', ''state'', ''action''] = Inr rb
        \<and> replay_buffer d = rb
        \<and> get_val_mask ext (n_episodes rb) val_ratio seed = Inr val_mask
        \<and> downsample_mask ext (invert val_mask) mte seed = Inr (train_mask d)
        \<and> length (train_mask d) = length val_mask
        \<and> (\<forall>i < length val_mask. train_mask d ! i \<longrightarrow> \<not> val_mask ! i)
        \<and> (\<forall>n. mte = Some n \<longrightarrow> int (count_list (train_mask d) True) \<le> n)"
    by blast
next
  assume a: "Lowdim_init ext lpath lhz lpb lpa ok sk ak mk seed val_ratio mte = Inr l"
  from Lowdim_init_result [OF a] obtain rb vm s where
    r: "copy_from_path ext lpath [ok, sk, ak, mk] = Inr rb"
       "get_val_mask ext (n_episodes rb) val_ratio seed = Inr vm"
       "downsample_mask ext (invert vm) mte seed = Inr (train_mask l)"
       "l = \<lparr>replay_buffer = rb, sampler = s, train_mask = train_mask l,
              horizon = lhz, pad_before = lpb, pad_after = lpa,
              obs_key = ok, state_key = sk, action_key = ak\<rparr>"
    by blast
  have rb: "replay_buffer l = rb" by (subst r(4)) simp
  from contract [OF r(3)] have
    c: "length (train_mask l) = length vm"
       "\<forall>i < length vm. train_mask l ! i \<longrightarrow> \<not> vm ! i"
       "\<forall>n. mte = Some n \<longrightarrow> int (count_list (train_mask l) True) \<le> n"
    by (simp_all add: length_invert nth_invert)
  from r(1,2,3) rb c show "\<exists>rb val_mask.
          copy_from_path ext lpath [ok, sk, ak, mk] = Inr rb
        \<and> replay_buffer l = rb
        \<and> get_val_mask ext (n_episodes rb) val_ratio seed = Inr val_mask
        \<and> downsample_mask ext (invert val_mask) mte seed = Inr (train_mask l)
        \<and> length (train_mask l) = length val_mask
        \<and> (\<forall>i < length val_mask. train_mask l ! i \<longrightarrow> \<not> val_mask ! i)
        \<and> (\<forall>n. mte = Some n \<longrightarrow> int (count_list (train_mask l) True) \<le> n)"
    by blast
qed

theorem train_mask_complement_then_downsample_witness:
  "(\<exists>d. Image_init ex_ext ''demo.zarr'' 2 0 0 42 (3 / 10) (Some 1) = Inr d
      \<and> get_val_mask ex_ext (n_episodes (replay_buffer d)) (3 / 10) 42 = Inr [True, False, False]
      \<and> downsample_mask ex_ext (invert [True, False, False]) (Some 1) 42 = Inr (train_mask d)
      \<and> train_mask d = [False, True, False]
      \<and> int (count_list (train_mask d) True) \<le> 1)
 \<and> (\<exists>l. Lowdim_init ex_ext ''demo.zarr'' 2 0 0 ''img'' ''state'' ''action'' ''img'' 42 (3 / 10) (Some 1) = Inr l
      \<and> get_val_mask ex_ext (n_episodes (replay_buffer l)) (3 / 10) 42 = Inr [True, False, False]
      \<and> downsample_mask ex_ext (invert [True, False, False]) (Some 1) 42 = Inr (train_mask l)
      \<and> train_mask l = [False, True, False]
      \<and> int (count_list (train_mask l) True) \<le> 1)"
proof -
  let ?d = "\<lparr>replay_buffer = ex_rb, sampler = (ex_rb, 2, 0, 0, [False, True, False]),
          train_mask = [False, True, False], horizon = 2, pad_before = 0, pad_after = 0\<rparr>
          :: ex_sampler dataset"
  let ?l = "\<lparr>replay_buffer = ex_rb, sampler = (ex_rb, 2, 0, 0, [False, True, False]),
          train_mask = [False, True, False], horizon = 2, pad_before = 0, pad_after = 0,
          obs_key = ''img'', state_key = ''state'', action_key = ''action''\<rparr>
          :: ex_sampler lowdim_dataset"
  have vm: "get_val_mask ex_ext (n_episodes ex_rb) (3 / 10) 42 = Inr [True, False, False]"
    by (simp add: ex_ext_def ex_rb_def n_episodes_def upt_rec)
  note t = train_mask_complement_then_downsample
         [of ex_ext "''demo.zarr''" 2 0 0 42 "3 / 10" "Some 1" ?d
             "''demo.zarr''" 2 0 0 "''img''" "''state''" "''action''" "''img''" ?l,
          OF ex_downsample_mask_contract]
  from t ex_Image_init vm have
    "downsample_mask ex_ext (invert [True, False, False]) (Some 1) 42 = Inr (train_mask ?d)
     \<and> int (count_list (train_mask ?d) True) \<le> 1"
    by auto
  moreover from t ex_Lowdim_init vm have
    "downsample_mask ex_ext (invert [True, False, False]) (Some 1) 42 = Inr (train_mask ?l)
     \<and> int (count_list (train_mask ?l) True) \<le> 1"
    by auto
  ultimately show ?thesis
    using ex_Image_init ex_Lowdim_init vm by simp
qed

section \<open>Samples of the image adapter\<close>

lemma set_concat_rows: "set (concat (rows n d xs)) \<subseteq> set xs"
  by (auto simp: rows_def dest!: in_set_takeD in_set_dropD)

lemma set_concat_transpose: "set (concat (transpose xss)) \<subseteq> set (concat xss)"
proof
  fix x assume "x \<in> set (concat (transpose xss))"
  then obtain r where r: "r \<in> set (transpose xss)" "x \<in> set r" by auto
  then obtain i where i: "i < length (transpose xss)" "r = transpose xss ! i"
    by (auto simp: in_set_conv_nth)
  with r(2) have "x \<in> set (map (\<lambda>ys. ys ! i) (filter (\<lambda>ys. i < length ys) xss))"
    by (simp add: nth_transpose)
  then obtain ys where ys: "ys \<in> set xss" "i < length ys" "x = ys ! i" by auto
  from ys(2,3) have "x \<in> set ys" by simp
  with ys(1) show "x \<in> set (concat xss)" by auto
qed

lemma moveaxis_last_to_1_elements:
  assumes "moveaxis_last_to_1 a = Inr b"
  shows "set (data b) \<subseteq> set (data a)"
proof -
  let ?m = "prod_list (butlast (tl (shape a)))" and ?c = "last (shape a)"
  from assms have b: "data b = concat (map (\<lambda>blk. concat (transpose (rows ?m ?c blk)))
                                      (rows (hd (shape a)) (?m * ?c) (data a)))"
    by (auto simp: moveaxis_last_to_1_def Let_def split: if_splits)
  show ?thesis
  proof
    fix x assume "x \<in> set (data b)"
    with b obtain blk where blk: "blk \<in> set (rows (hd (shape a)) (?m * ?c) (data a))"
      "x \<in> set (concat (transpose (rows ?m ?c blk)))" by auto
    from blk(2) have "x \<in> set (concat (rows ?m ?c blk))"
      by (rule subsetD [OF set_concat_transpose])
    then have "x \<in> set blk"
      by (rule subsetD [OF set_concat_rows])
    with blk(1) have "x \<in> set (concat (rows (hd (shape a)) (?m * ?c) (data a)))" by auto
    then show "x \<in> set (data a)"
      by (rule subsetD [OF set_concat_rows])
  qed
qed

lemma true_divide_255_bounds:
  assumes "mono (r float32)" "r float32 0 = 0" "r float32 1 = 1"
    and "mono (r float64)" "r float64 0 = 0" "r float64 1 = 1"
    and "\<forall>x \<in> set (data a). 0 \<le> x \<and> x \<le> 255"
  shows "\<forall>y \<in> set (data (true_divide r a 255)). 0 \<le> y \<and> y \<le> 1"
proof
  fix y assume "y \<in> set (data (true_divide r a 255))"
  then obtain x dt where x: "x \<in> set (data a)" "y = r dt (x / 255)"
    and dt: "dt = float32 \<or> dt = float64"
    by (auto simp: true_divide_def Let_def split: if_splits)
  from dt assms(1-6) have m: "mono (r dt)" "r dt 0 = 0" "r dt 1 = 1" by auto
  from x(1) assms(7) have q: "0 \<le> x / 255" "x / 255 \<le> 1" by auto
  have "r dt 0 \<le> r dt (x / 255)" by (rule monoD [OF m(1) q(1)])
  moreover have "r dt (x / 255) \<le> r dt 1" by (rule monoD [OF m(1) q(2)])
  ultimately show "0 \<le> y \<and> y \<le> 1" by (simp add: x(2) m(2,3))
qed

lemma Image_sample_to_data_result:
  assumes "Image_sample_to_data ext sample = Inr d"
  shows "\<exists>st st2 img moved act.
      sample ''state'' = Some st \<and> getitem_colon_to2 st = Inr st2
    \<and> sample ''img'' = Some img \<and> moveaxis_last_to_1 img = Inr moved
    \<and> sample ''action'' = Some act
    \<and> d = Dict [
           (''obs'', Dict [
              (''image'', Leaf (true_divide (rnd ext) moved 255)),
              (''agent_pos'', Leaf (astype (rnd ext) st2 float32))]),
           (''action'', Leaf (astype (rnd ext) act float32))]"
  using assms unfolding Image_sample_to_data_def getitem_def Let_def
  by (simp split: sum.splits option.splits)

lemma Image_getitem_result:
  assumes "Image_getitem ext self idx = Inr item"
  shows "\<exists>sample st st2 img moved act.
      sample_sequence ext (sampler self) idx = Inr sample
    \<and> sample ''state'' = Some st \<and> getitem_colon_to2 st = Inr st2
    \<and> sample ''img'' = Some img \<and> moveaxis_last_to_1 img = Inr moved
    \<and> sample ''action'' = Some act
    \<and> item = Dict [
           (''obs'', Dict [
              (''image'', Leaf (from_numpy (true_divide (rnd ext) moved 255))),
              (''agent_pos'', Leaf (from_numpy (astype (rnd ext) st2 float32)))]),
           (''action'', Leaf (from_numpy (astype (rnd ext) act float32)))]"
proof -
  from assms obtain sample d where
    s: "sample_sequence ext (sampler self) idx = Inr sample"
    and d: "Image_sample_to_data ext sample = Inr d"
    and i: "item = dict_apply d from_numpy"
    unfolding Image_getitem_def by (auto split: sum.splits)
  from Image_sample_to_data_result [OF d] s i show ?thesis
    by (auto simp: dict_apply_def)
qed


lemma nth_concat_uniform:
  assumes "\<And>b. b \<in> set bs \<Longrightarrow> length b = w" "r < length bs" "j < w"
  shows "concat bs ! (r * w + j) = bs ! r ! j"
  using assms
proof (induction bs arbitrary: r)
  case Nil
  then show ?case by simp
next
  case (Cons b bs)
  have lb: "length b = w" using Cons.prems(1) by simp
  show ?case
  proof (cases r)
    case 0
    with lb Cons.prems(3) show ?thesis by (simp add: nth_append)
  next
    case (Suc r')
    with Cons.prems have "concat bs ! (r' * w + j) = bs ! r' ! j"
      by (intro Cons.IH) auto
    with Suc lb show ?thesis by (simp add: nth_append)
  qed
qed

lemma nth_rows:
  assumes "r < n" "j < d" "r * d + j < length xs"
  shows "rows n d xs ! r ! j = xs ! (r * d + j)"
  using assms by (simp add: rows_def)

lemma length_rows: "length (rows n d xs) = n"
  by (simp add: rows_def)

lemma length_nth_rows:
  assumes "r < n" "n * d \<le> length xs"
  shows "length (rows n d xs ! r) = d"
proof -
  from assms(1) have "Suc r \<le> n" by simp
  then have "Suc r * d \<le> n * d" by (rule mult_le_mono1)
  with assms(2) have "r * d + d \<le> length xs" by simp
  with assms(1) show ?thesis by (simp add: rows_def)
qed

lemma getitem_colon_to2_2d:
  assumes "shape st = [h, d]" "2 \<le> d"
  shows "\<exists>st2. getitem_colon_to2 st = Inr st2 \<and> shape st2 = [h, 2] \<and> dtype st2 = dtype st
    \<and> data st2 = concat (map (take 2) (rows h d (data st)))"
  using assms by (simp add: getitem_colon_to2_def slice_axis_def Let_def)

lemma first_two_columns:
  assumes "length xs = h * d" "2 \<le> d" "r < h" "j < 2"
  shows "concat (map (take 2) (rows h d xs)) ! (r * 2 + j) = xs ! (r * d + j)"
proof -
  let ?bs = "map (take 2) (rows h d xs)"
  have len: "\<And>b. b \<in> set ?bs \<Longrightarrow> length b = 2"
  proof -
    fix b assume "b \<in> set ?bs"
    then obtain i where i: "i < h" "b = take 2 (rows h d xs ! i)"
      by (auto simp: in_set_conv_nth length_rows)
    from i(1) assms(1) have "length (rows h d xs ! i) = d"
      by (intro length_nth_rows) simp_all
    with i(2) assms(2) show "length b = 2" by simp
  qed
  from assms(3) have "Suc r \<le> h" by simp
  then have "Suc r * d \<le> h * d" by (rule mult_le_mono1)
  with assms have inb: "r * d + j < length xs" by simp
  have "concat ?bs ! (r * 2 + j) = ?bs ! r ! j"
    using len assms(3,4) by (intro nth_concat_uniform) (simp_all add: length_rows)
  also have "\<dots> = rows h d xs ! r ! j"
    using assms(3,4) by (simp add: length_rows)
  also have "\<dots> = xs ! (r * d + j)"
    using assms inb by (intro nth_rows) simp_all
  finally show ?thesis .
qed


lemma ex_getitem_1:
  "Image_getitem ex_ext ex_dataset 1 = Inr (Dict
       [(''obs'', Dict
          [(''image'', Leaf \<lparr>t_shape = [2, 2, 1, 2], t_dtype = float64,
                t_data = [2 / 51, 2 / 17, 4 / 51, 8 / 51, 50 / 51, 0, 1 / 51, 128 / 255]\<rparr>),
           (''agent_pos'', Leaf \<lparr>t_shape = [2, 2], t_dtype = float32, t_data = [4, 5, 7, 8]\<rparr>)]),
        (''action'', Leaf \<lparr>t_shape = [2, 2], t_dtype = float32, t_data = [0, 1, 1, 1]\<rparr>)])"
  by (simp add: Image_getitem_def Image_sample_to_data_def ex_ext_def ex_dataset_def ex_rb_def
        getitem_def ex_window_def ex_img_def ex_state_def ex_action_def Let_def
        getitem_colon_to2_def slice_axis_def moveaxis_last_to_1_def rows_def upt_rec
        true_divide_def astype_def dict_apply_def from_numpy_def)


lemma ex_sample_sequence_1:
  "sample_sequence ex_ext (sampler ex_dataset) 1 = Inr (map_option (ex_window 1 2) \<circ> rb_data ex_rb)"
  by (simp add: ex_ext_def ex_dataset_def)

lemma sum_list_const:
  assumes "\<And>x. x \<in> set xs \<Longrightarrow> f x = (c::nat)"
  shows "sum_list (map f xs) = length xs * c"
  using assms by (induction xs) auto

lemma length_first_two_columns:
  assumes "length xs = h * d" "2 \<le> d"
  shows "length (concat (map (take 2) (rows h d xs))) = h * 2"
proof -
  have "(\<Sum>i\<leftarrow>[0..<h]. length (take 2 (take d (drop (i * d) xs)))) = length [0..<h] * 2"
  proof (rule sum_list_const)
    fix i assume "i \<in> set [0..<h]"
    then have "Suc i \<le> h" by simp
    then have "Suc i * d \<le> h * d" by (rule mult_le_mono1)
    with assms show "length (take 2 (take d (drop (i * d) xs))) = 2" by simp
  qed
  then show ?thesis
    by (simp add: rows_def length_concat comp_def)
qed

lemma foldr_max_length_const:
  assumes "\<And>ys. ys \<in> set xss \<Longrightarrow> length ys = c" "xss \<noteq> []"
  shows "foldr (\<lambda>xs. max (length xs)) xss 0 = c"
  using assms
proof (induction xss)
  case Nil
  then show ?case by simp
next
  case (Cons a xss)
  show ?case
  proof (cases "xss = []")
    case True
    with Cons.prems show ?thesis by simp
  next
    case False
    with Cons have "foldr (\<lambda>xs. max (length xs)) xss 0 = c" by simp
    with Cons.prems show ?thesis by simp
  qed
qed

lemma rows_rectangular:
  assumes "length xs = n * d" "ys \<in> set (rows n d xs)"
  shows "length ys = d"
proof -
  from assms(2) obtain i where "i < n" "ys = rows n d xs ! i"
    by (auto simp: in_set_conv_nth length_rows)
  with assms(1) show ?thesis by (simp add: length_nth_rows)
qed

lemma transpose_rows:
  assumes "length blk = m * c" "k < c" "i < m"
  shows "length (transpose (rows m c blk)) = c"
    and "length (transpose (rows m c blk) ! k) = m"
    and "transpose (rows m c blk) ! k ! i = blk ! (i * c + k)"
proof -
  let ?R = "rows m c blk"
  have rect: "\<And>ys. ys \<in> set ?R \<Longrightarrow> length ys = c"
    using assms(1) by (rule rows_rectangular)
  from assms(3) have ne: "?R \<noteq> []" by (auto simp: rows_def)
  show lt: "length (transpose ?R) = c"
    unfolding length_transpose using rect ne by (rule foldr_max_length_const)
  have "filter (\<lambda>ys. k < length ys) ?R = ?R"
    using rect assms(2) by (intro filter_True) simp
  with lt assms(2) have row: "transpose ?R ! k = map (\<lambda>ys. ys ! k) ?R"
    by (simp add: nth_transpose)
  show "length (transpose ?R ! k) = m" by (simp add: row length_rows)
  from assms(3) have "Suc i \<le> m" by simp
  then have "Suc i * c \<le> m * c" by (rule mult_le_mono1)
  with assms have inb: "i * c + k < length blk" by simp
  have "transpose ?R ! k ! i = ?R ! i ! k"
    using assms(3) by (simp add: row length_rows)
  also have "\<dots> = blk ! (i * c + k)"
    using assms(3,2) inb by (rule nth_rows)
  finally show "transpose ?R ! k ! i = blk ! (i * c + k)" .
qed

lemma length_concat_transpose_rows:
  assumes "length blk = m * c"
  shows "length (concat (transpose (rows m c blk))) = c * m"
proof (cases "m = 0 \<or> c = 0")
  case True
  then show ?thesis
  proof
    assume "m = 0"
    then show ?thesis by (simp add: rows_def)
  next
    assume c: "c = 0"
    have "\<forall>ys \<in> set (rows m c blk). ys = []" by (simp add: rows_def c)
    then have "transpose (rows m c blk) = []" by (simp add: transpose_empty)
    with c show ?thesis by simp
  qed
next
  case False
  then have pos: "0 < m" "0 < c" by simp_all
  let ?T = "transpose (rows m c blk)"
  have lt: "length ?T = c" by (rule transpose_rows(1) [OF assms pos(2) pos(1)])
  have "\<And>b. b \<in> set ?T \<Longrightarrow> length b = m"
  proof -
    fix b assume "b \<in> set ?T"
    then obtain k where "k < c" "b = ?T ! k" unfolding in_set_conv_nth lt by blast
    with transpose_rows(2) [OF assms _ pos(1)] show "length b = m" by simp
  qed
  then have "sum_list (map length ?T) = length ?T * m" by (intro sum_list_const) simp
  with lt show ?thesis by (simp add: length_concat)
qed

lemma nth_concat_transpose_rows:
  assumes "length blk = m * c" "k < c" "i < m"
  shows "concat (transpose (rows m c blk)) ! (k * m + i) = blk ! (i * c + k)"
proof -
  let ?T = "transpose (rows m c blk)"
  have lt: "length ?T = c" using assms by (rule transpose_rows(1))
  have len: "\<And>b. b \<in> set ?T \<Longrightarrow> length b = m"
  proof -
    fix b assume "b \<in> set ?T"
    then obtain k' where "k' < c" "b = ?T ! k'" unfolding in_set_conv_nth lt by blast
    with transpose_rows(2) [OF assms(1) _ assms(3)] show "length b = m" by simp
  qed
  have "concat ?T ! (k * m + i) = ?T ! k ! i"
    using len assms(2,3) lt by (intro nth_concat_uniform) simp_all
  also have "\<dots> = blk ! (i * c + k)" using assms by (rule transpose_rows(3))
  finally show ?thesis .
qed


lemma mult_add_less:
  assumes "(k::nat) < c" "i < m"
  shows "k * m + i < c * m"
proof -
  from assms(1) have "Suc k \<le> c" by simp
  then have "Suc k * m \<le> c * m" by (rule mult_le_mono1)
  with assms(2) show ?thesis by simp
qed

lemma moveaxis_last_to_1_result:
  assumes "moveaxis_last_to_1 a = Inr b"
  shows "2 \<le> length (shape a)"
    and "shape b = hd (shape a) # last (shape a) # butlast (tl (shape a))"
    and "dtype b = dtype a"
    and "data b = concat (map (\<lambda>blk. concat (transpose
            (rows (prod_list (butlast (tl (shape a)))) (last (shape a)) blk)))
          (rows (hd (shape a)) (prod_list (butlast (tl (shape a))) * last (shape a)) (data a)))"
  using assms by (auto simp: moveaxis_last_to_1_def Let_def split: if_splits)

lemma prod_list_shape_split:
  assumes "2 \<le> length s"
  shows "prod_list s = hd s * (prod_list (butlast (tl s)) * last s)"
proof -
  from assms obtain x r where s: "s = x # r" "r \<noteq> []"
    by (cases s) (auto simp: Suc_le_eq)
  then have "r = butlast r @ [last r]" by simp
  then have "prod_list r = prod_list (butlast r) * last r"
    by (metis prod_list.append prod_list.Cons prod_list.Nil mult.right_neutral)
  with s show ?thesis by simp
qed

lemma moveaxis_last_to_1_nth:
  assumes mv: "moveaxis_last_to_1 a = Inr b"
    and wf: "length (data a) = prod_list (shape a)"
    and t: "t < hd (shape a)" and k: "k < last (shape a)"
    and i: "i < prod_list (butlast (tl (shape a)))"
  shows "data b ! (t * (last (shape a) * prod_list (butlast (tl (shape a))))
                    + k * prod_list (butlast (tl (shape a))) + i)
       = data a ! (t * (prod_list (butlast (tl (shape a))) * last (shape a))
                    + i * last (shape a) + k)"
proof -
  define n0 where "n0 = hd (shape a)"
  define c where "c = last (shape a)"
  define m where "m = prod_list (butlast (tl (shape a)))"
  let ?B = "rows n0 (m * c) (data a)"
  let ?g = "\<lambda>blk. concat (transpose (rows m c blk))"
  note r = moveaxis_last_to_1_result [OF mv]
  have la: "length (data a) = n0 * (m * c)"
    unfolding wf n0_def c_def m_def using r(1) by (rule prod_list_shape_split)
  have db: "data b = concat (map ?g ?B)"
    unfolding n0_def c_def m_def by (rule r(4))
  have t': "t < n0" and k': "k < c" and i': "i < m"
    using t k i by (simp_all add: n0_def c_def m_def)
  have lB: "\<And>blk. blk \<in> set ?B \<Longrightarrow> length blk = m * c"
    using la by (rule rows_rectangular)
  have lG: "\<And>x. x \<in> set (map ?g ?B) \<Longrightarrow> length x = c * m"
  proof -
    fix x assume "x \<in> set (map ?g ?B)"
    then obtain blk where "blk \<in> set ?B" "x = ?g blk" by auto
    with lB show "length x = c * m" by (simp add: length_concat_transpose_rows)
  qed
  have kmi: "k * m + i < c * m" using k' i' by (rule mult_add_less)
  have ick: "i * c + k < m * c" using i' k' by (rule mult_add_less)
  have Bt: "length (?B ! t) = m * c"
    using t' by (intro lB) (simp add: length_rows)
  from t' have "Suc t \<le> n0" by simp
  then have "Suc t * (m * c) \<le> n0 * (m * c)" by (rule mult_le_mono1)
  with ick la have inb: "t * (m * c) + (i * c + k) < length (data a)" by simp
  have "data b ! (t * (c * m) + (k * m + i)) = map ?g ?B ! t ! (k * m + i)"
    unfolding db using lG t' kmi by (intro nth_concat_uniform) (simp_all add: length_rows)
  also have "\<dots> = ?g (?B ! t) ! (k * m + i)"
    using t' by (simp add: length_rows)
  also have "\<dots> = ?B ! t ! (i * c + k)"
    using Bt k' i' by (rule nth_concat_transpose_rows)
  also have "\<dots> = data a ! (t * (m * c) + (i * c + k))"
    using t' ick inb by (rule nth_rows)
  finally show ?thesis
    by (simp add: n0_def c_def m_def add.assoc)
qed


lemma moveaxis_last_to_1_length:
  assumes mv: "moveaxis_last_to_1 a = Inr b"
    and wf: "length (data a) = prod_list (shape a)"
  shows "length (data b) = length (data a)"
proof -
  define n0 where "n0 = hd (shape a)"
  define c where "c = last (shape a)"
  define m where "m = prod_list (butlast (tl (shape a)))"
  let ?B = "rows n0 (m * c) (data a)"
  let ?g = "\<lambda>blk. concat (transpose (rows m c blk))"
  note r = moveaxis_last_to_1_result [OF mv]
  have la: "length (data a) = n0 * (m * c)"
    unfolding wf n0_def c_def m_def using r(1) by (rule prod_list_shape_split)
  have db: "data b = concat (map ?g ?B)"
    unfolding n0_def c_def m_def by (rule r(4))
  have lB: "\<And>blk. blk \<in> set ?B \<Longrightarrow> length blk = m * c"
    using la by (rule rows_rectangular)
  have "sum_list (map (\<lambda>blk. length (?g blk)) ?B) = length ?B * (c * m)"
    by (rule sum_list_const) (simp add: lB length_concat_transpose_rows)
  then have "length (data b) = n0 * (c * m)"
    by (simp add: db length_concat comp_def length_rows)
  with la show ?thesis by (simp add: mult.commute)
qed

text \<open>
  C2. Whenever \<^verbatim>\<open>__getitem__\<close> of the image adapter returns at an index where the pixels
  of the window \<open>w\<close> the sampler returned are pixels of the stored \<^verbatim>\<open>img\<close> field, and
  every stored pixel lies in \<open>[0, 255]\<close>: \<^verbatim>\<open>item['obs']['image']\<close> is the window's image
  with its last axis moved to position 1 and every pixel divided by 255, in float32
  for a float32 image and in float64 otherwise, so that pixel \<open>(n, i, k)\<close> of the window
  divided by 255 is element \<open>(n, k, i)\<close> of the result; and every element lies in
  \<open>[0, 1]\<close>. The division is a floating-point one: of the rounding \<open>rnd\<close> into float32
  and float64 only monotonicity and exactness at 0 and 1 are used, which rounding to
  nearest has.
\<close>

theorem image_pixels_in_unit_interval:
  assumes rounding:
      "mono (rnd ext float32)" "rnd ext float32 0 = 0" "rnd ext float32 1 = 1"
      "mono (rnd ext float64)" "rnd ext float64 0 = 0" "rnd ext float64 1 = 1"
    and window: "sample_sequence ext (sampler self) idx = Inr sample" "sample ''img'' = Some w"
    and stored: "rb_data (replay_buffer self) ''img'' = Some img"
      "set (data w) \<subseteq> set (data img)"
      "\<forall>x \<in> set (data img). 0 \<le> x \<and> x \<le> 255"
    and ret: "Image_getitem ext self idx = Inr item"
  shows "\<exists>obs t moved. dict_getitem item ''obs'' = Inr obs
      \<and> dict_getitem obs ''image'' = Inr (Leaf t)
      \<and> moveaxis_last_to_1 w = Inr moved
      \<and> t_shape t = hd (shape w) # last (shape w) # butlast (tl (shape w))
      \<and> t_dtype t = (if dtype w = float32 then float32 else float64)
      \<and> t_data t = map (\<lambda>x. rnd ext (t_dtype t) (x / 255)) (data moved)
      \<and> (length (data w) = prod_list (shape w) \<longrightarrow>
            length (t_data t) = length (data w)
          \<and> (\<forall>n < hd (shape w). \<forall>k < last (shape w). \<forall>i < prod_list (butlast (tl (shape w))).
                t_data t ! (n * (last (shape w) * prod_list (butlast (tl (shape w))))
                             + k * prod_list (butlast (tl (shape w))) + i)
                = rnd ext (t_dtype t)
                    (data w ! (n * (prod_list (butlast (tl (shape w))) * last (shape w))
                                + i * last (shape w) + k) / 255)))
      \<and> (\<forall>x \<in> set (t_data t). 0 \<le> x \<and> x \<le> 1)"
proof -
  from Image_getitem_result [OF ret] window obtain st2 moved act where
    m: "moveaxis_last_to_1 w = Inr moved"
    and item: "item = Dict [
           (''obs'', Dict [
              (''image'', Leaf (from_numpy (true_divide (rnd ext) moved 255))),
              (''agent_pos'', Leaf (from_numpy (astype (rnd ext) st2 float32)))]),
           (''action'', Leaf (from_numpy (astype (rnd ext) act float32)))]"
    by auto
  define t where "t = from_numpy (true_divide (rnd ext) moved 255)"
  note r = moveaxis_last_to_1_result [OF m]
  have sh: "t_shape t = hd (shape w) # last (shape w) # butlast (tl (shape w))"
    by (simp add: t_def from_numpy_def true_divide_def Let_def r(2))
  have dt: "t_dtype t = (if dtype w = float32 then float32 else float64)"
    by (simp add: t_def from_numpy_def true_divide_def Let_def r(3))
  have da: "t_data t = map (\<lambda>x. rnd ext (t_dtype t) (x / 255)) (data moved)"
    by (simp add: t_def from_numpy_def true_divide_def Let_def)
  have el: "length (data w) = prod_list (shape w) \<longrightarrow>
            length (t_data t) = length (data w)
          \<and> (\<forall>n < hd (shape w). \<forall>k < last (shape w). \<forall>i < prod_list (butlast (tl (shape w))).
                t_data t ! (n * (last (shape w) * prod_list (butlast (tl (shape w))))
                             + k * prod_list (butlast (tl (shape w))) + i)
                = rnd ext (t_dtype t)
                    (data w ! (n * (prod_list (butlast (tl (shape w))) * last (shape w))
                                + i * last (shape w) + k) / 255))"
  proof (intro impI conjI allI)
    assume wf: "length (data w) = prod_list (shape w)"
    show l: "length (t_data t) = length (data w)"
      by (simp add: da moveaxis_last_to_1_length [OF m wf])
    fix n k i
    assume n: "n < hd (shape w)" and k: "k < last (shape w)"
      and i: "i < prod_list (butlast (tl (shape w)))"
    let ?c = "last (shape w)" and ?m = "prod_list (butlast (tl (shape w)))"
    have lw: "length (data w) = hd (shape w) * (?m * ?c)"
      unfolding wf using r(1) by (rule prod_list_shape_split)
    have "k * ?m + i < ?c * ?m" using k i by (rule mult_add_less)
    moreover from n have "Suc n \<le> hd (shape w)" by simp
    then have "Suc n * (?c * ?m) \<le> hd (shape w) * (?c * ?m)" by (rule mult_le_mono1)
    ultimately have "n * (?c * ?m) + k * ?m + i < hd (shape w) * (?c * ?m)" by simp
    with lw have inb: "n * (?c * ?m) + k * ?m + i < length (data moved)"
      by (simp add: moveaxis_last_to_1_length [OF m wf] mult.commute)
    show "t_data t ! (n * (?c * ?m) + k * ?m + i)
                = rnd ext (t_dtype t) (data w ! (n * (?m * ?c) + i * ?c + k) / 255)"
      using inb by (simp add: da moveaxis_last_to_1_nth [OF m wf n k i])
  qed
  from moveaxis_last_to_1_elements [OF m] stored(2,3)
  have "\<forall>x \<in> set (data moved). 0 \<le> x \<and> x \<le> 255" by blast
  from true_divide_255_bounds [OF rounding this]
  have bd: "\<forall>x \<in> set (t_data t). 0 \<le> x \<and> x \<le> 1"
    by (simp add: t_def from_numpy_def)
  have "dict_getitem item ''obs'' = Inr (Dict [
              (''image'', Leaf t),
              (''agent_pos'', Leaf (from_numpy (astype (rnd ext) st2 float32)))])"
    by (simp add: item t_def)
  moreover have "dict_getitem (Dict [
              (''image'', Leaf t),
              (''agent_pos'', Leaf (from_numpy (astype (rnd ext) st2 float32)))]) ''image''
      = Inr (Leaf t)"
    by simp
  ultimately show ?thesis using m sh dt da el bd by blast
qed


theorem image_pixels_in_unit_interval_witness:
  "mono (rnd ex_ext float32) \<and> rnd ex_ext float32 0 = 0 \<and> rnd ex_ext float32 1 = 1
 \<and> mono (rnd ex_ext float64) \<and> rnd ex_ext float64 0 = 0 \<and> rnd ex_ext float64 1 = 1
 \<and> sample_sequence ex_ext (sampler ex_dataset) 1 = Inr (map_option (ex_window 1 2) \<circ> rb_data ex_rb)
 \<and> (map_option (ex_window 1 2) \<circ> rb_data ex_rb) ''img''
      = Some \<lparr>shape = [2, 1, 2, 2], dtype = uint8, data = [10, 20, 30, 40, 250, 5, 0, 128]\<rparr>
 \<and> rb_data (replay_buffer ex_dataset) ''img'' = Some ex_img
 \<and> list_all (\<lambda>x. 0 \<le> x \<and> x \<le> 255) (data ex_img)
 \<and> (\<exists>item obs t. Image_getitem ex_ext ex_dataset 1 = Inr item
      \<and> dict_getitem item ''obs'' = Inr obs
      \<and> dict_getitem obs ''image'' = Inr (Leaf t)
      \<and> t_shape t = [2, 2, 1, 2] \<and> t_dtype t = float64
      \<and> t_data t = [2 / 51, 2 / 17, 4 / 51, 8 / 51, 50 / 51, 0, 1 / 51, 128 / 255]
      \<and> list_all (\<lambda>x. 0 \<le> x \<and> x \<le> 1) (t_data t))"
proof -
  let ?w = "\<lparr>shape = [2, 1, 2, 2], dtype = uint8, data = [10, 20, 30, 40, 250, 5, 0, 128]\<rparr>"
  have r: "mono (rnd ex_ext float32)" "rnd ex_ext float32 0 = 0" "rnd ex_ext float32 1 = 1"
          "mono (rnd ex_ext float64)" "rnd ex_ext float64 0 = 0" "rnd ex_ext float64 1 = 1"
    by (simp_all add: ex_ext_def mono_def)
  have w: "(map_option (ex_window 1 2) \<circ> rb_data ex_rb) ''img'' = Some ?w"
    by (simp add: ex_rb_def ex_window_def ex_img_def)
  have st: "rb_data (replay_buffer ex_dataset) ''img'' = Some ex_img"
    by (simp add: ex_dataset_def ex_rb_def)
  have sub: "set (data ?w) \<subseteq> set (data ex_img)"
    by (simp add: ex_img_def)
  have rng: "\<forall>x \<in> set (data ex_img). 0 \<le> x \<and> x \<le> 255"
    by (simp add: ex_img_def)
  from image_pixels_in_unit_interval
         [of ex_ext ex_dataset 1, OF r ex_sample_sequence_1 w st sub rng ex_getitem_1]
  obtain obs t where
    o: "dict_getitem (Dict
       [(''obs'', Dict
          [(''image'', Leaf \<lparr>t_shape = [2, 2, 1, 2], t_dtype = float64,
                t_data = [2 / 51, 2 / 17, 4 / 51, 8 / 51, 50 / 51, 0, 1 / 51, 128 / 255]\<rparr>),
           (''agent_pos'', Leaf \<lparr>t_shape = [2, 2], t_dtype = float32, t_data = [4, 5, 7, 8]\<rparr>)]),
        (''action'', Leaf \<lparr>t_shape = [2, 2], t_dtype = float32, t_data = [0, 1, 1, 1]\<rparr>)])
       ''obs'' = Inr obs"
      "dict_getitem obs ''image'' = Inr (Leaf t)"
    and sh: "t_shape t = hd (shape ?w) # last (shape ?w) # butlast (tl (shape ?w))"
    and dt: "t_dtype t = (if dtype ?w = float32 then float32 else float64)"
    and bd: "\<forall>x \<in> set (t_data t). 0 \<le> x \<and> x \<le> 1"
    by blast
  from o have t: "t = \<lparr>t_shape = [2, 2, 1, 2], t_dtype = float64,
                t_data = [2 / 51, 2 / 17, 4 / 51, 8 / 51, 50 / 51, 0, 1 / 51, 128 / 255]\<rparr>"
    by auto
  from sh have sh': "t_shape t = [2, 2, 1, 2]" by simp
  from dt have dt': "t_dtype t = float64" by simp
  from bd have bd': "list_all (\<lambda>x. 0 \<le> x \<and> x \<le> 1) (t_data t)"
    by (simp add: list_all_iff)
  from t have da: "t_data t = [2 / 51, 2 / 17, 4 / 51, 8 / 51, 50 / 51, 0, 1 / 51, 128 / 255]"
    by simp
  from rng have rng': "list_all (\<lambda>x. 0 \<le> x \<and> x \<le> 255) (data ex_img)"
    by (simp add: list_all_iff)
  from ex_getitem_1 o sh' dt' da bd'
  have "\<exists>item obs t. Image_getitem ex_ext ex_dataset 1 = Inr item
      \<and> dict_getitem item ''obs'' = Inr obs
      \<and> dict_getitem obs ''image'' = Inr (Leaf t)
      \<and> t_shape t = [2, 2, 1, 2] \<and> t_dtype t = float64
      \<and> t_data t = [2 / 51, 2 / 17, 4 / 51, 8 / 51, 50 / 51, 0, 1 / 51, 128 / 255]
      \<and> list_all (\<lambda>x. 0 \<le> x \<and> x \<le> 1) (t_data t)"
    by blast
  with r ex_sample_sequence_1 w st rng' show ?thesis by blast
qed


lemma Image_getitem_returns:
  assumes "sample_sequence ext (sampler self) idx = Inr sample"
    "sample ''state'' = Some st" "2 \<le> length (shape st)"
    "sample ''img'' = Some img" "2 \<le> length (shape img)"
    "sample ''action'' = Some act"
  shows "\<exists>item. Image_getitem ext self idx = Inr item"
  using assms
  by (simp add: Image_getitem_def Image_sample_to_data_def getitem_def Let_def
        getitem_colon_to2_def moveaxis_last_to_1_def)

text \<open>
  C3. At every index, a valid one in particular, where the window of the sampler has a
  \<^verbatim>\<open>state\<close> array of \<open>h\<close> rows and \<open>d \<ge> 2\<close> columns (the layout the source documents
  at line 75: two columns of agent position, then the block pose) and an \<^verbatim>\<open>action\<close> array
  of leading dimension \<open>h\<close>: whatever \<^verbatim>\<open>__getitem__\<close> returns has an
  \<^verbatim>\<open>item['obs']['agent_pos']\<close> of shape \<open>(h, 2)\<close> holding the first two columns of
  \<^verbatim>\<open>state\<close>, and an \<^verbatim>\<open>item['action']\<close> holding the window's \<^verbatim>\<open>action\<close> with its
  shape, so leading dimension \<open>h\<close>; both are converted to float32. And \<^verbatim>\<open>__getitem__\<close>
  does return when the window's \<^verbatim>\<open>img\<close> array has at least two axes.
\<close>

theorem agent_pos_and_action_shapes:
  assumes window: "sample_sequence ext (sampler self) idx = Inr sample"
      "sample ''state'' = Some st" "sample ''action'' = Some act"
    and shapes: "shape st = [h, d]" "2 \<le> d" "shape act = h # arest"
  shows "(\<forall>item. Image_getitem ext self idx = Inr item \<longrightarrow>
      (\<exists>obs ap ac. dict_getitem item ''obs'' = Inr obs
        \<and> dict_getitem obs ''agent_pos'' = Inr (Leaf ap)
        \<and> dict_getitem item ''action'' = Inr (Leaf ac)
        \<and> t_shape ap = [h, 2] \<and> t_dtype ap = float32
        \<and> t_shape ac = h # arest \<and> t_dtype ac = float32
        \<and> t_data ac = (if dtype act = float32 then data act
                        else map (rnd ext float32) (data act))
        \<and> (length (data st) = h * d \<longrightarrow>
              length (t_data ap) = h * 2
            \<and> (\<forall>r < h. \<forall>j < 2. t_data ap ! (r * 2 + j) =
                  (if dtype st = float32 then data st ! (r * d + j)
                   else rnd ext float32 (data st ! (r * d + j)))))))
   \<and> (\<forall>img. sample ''img'' = Some img \<and> 2 \<le> length (shape img) \<longrightarrow>
        (\<exists>item. Image_getitem ext self idx = Inr item))"
proof (intro conjI allI impI)
  fix item assume ret: "Image_getitem ext self idx = Inr item"
  from getitem_colon_to2_2d [OF shapes(1,2)] obtain st2 where
    st2: "getitem_colon_to2 st = Inr st2" "shape st2 = [h, 2]" "dtype st2 = dtype st"
         "data st2 = concat (map (take 2) (rows h d (data st)))"
    by blast
  from Image_getitem_result [OF ret] window st2(1) obtain moved where
    item: "item = Dict [
           (''obs'', Dict [
              (''image'', Leaf (from_numpy (true_divide (rnd ext) moved 255))),
              (''agent_pos'', Leaf (from_numpy (astype (rnd ext) st2 float32)))]),
           (''action'', Leaf (from_numpy (astype (rnd ext) act float32)))]"
    by auto
  define ap where "ap = from_numpy (astype (rnd ext) st2 float32)"
  define ac where "ac = from_numpy (astype (rnd ext) act float32)"
  have sh: "t_shape ap = [h, 2]" "t_dtype ap = float32"
           "t_shape ac = h # arest" "t_dtype ac = float32"
    by (simp_all add: ap_def ac_def from_numpy_def astype_def st2(2) shapes(3))
  have dac: "t_data ac = (if dtype act = float32 then data act
                          else map (rnd ext float32) (data act))"
    by (simp add: ac_def from_numpy_def astype_def)
  have el: "length (data st) = h * d \<longrightarrow>
              length (t_data ap) = h * 2
            \<and> (\<forall>r < h. \<forall>j < 2. t_data ap ! (r * 2 + j) =
                  (if dtype st = float32 then data st ! (r * d + j)
                   else rnd ext float32 (data st ! (r * d + j))))"
  proof (intro impI conjI allI)
    assume wf: "length (data st) = h * d"
    have l2: "length (data st2) = h * 2"
      unfolding st2(4) using wf shapes(2) by (rule length_first_two_columns)
    then show "length (t_data ap) = h * 2"
      by (simp add: ap_def from_numpy_def astype_def)
    fix r j :: nat assume rj: "r < h" "j < 2"
    from rj have "Suc r \<le> h" by simp
    then have "Suc r * 2 \<le> h * 2" by (rule mult_le_mono1)
    with rj l2 have inb: "r * 2 + j < length (data st2)" by simp
    have e: "data st2 ! (r * 2 + j) = data st ! (r * d + j)"
      unfolding st2(4) using wf shapes(2) rj by (rule first_two_columns)
    show "t_data ap ! (r * 2 + j) =
            (if dtype st = float32 then data st ! (r * d + j)
             else rnd ext float32 (data st ! (r * d + j)))"
      using inb e by (simp add: ap_def from_numpy_def astype_def st2(3))
  qed
  have "dict_getitem item ''obs'' = Inr (Dict [
              (''image'', Leaf (from_numpy (true_divide (rnd ext) moved 255))),
              (''agent_pos'', Leaf ap)])"
    by (simp add: item ap_def)
  moreover have "dict_getitem (Dict [
              (''image'', Leaf (from_numpy (true_divide (rnd ext) moved 255))),
              (''agent_pos'', Leaf ap)]) ''agent_pos'' = Inr (Leaf ap)"
    by simp
  moreover have "dict_getitem item ''action'' = Inr (Leaf ac)"
    by (simp add: item ac_def)
  ultimately show "\<exists>obs ap ac. dict_getitem item ''obs'' = Inr obs
        \<and> dict_getitem obs ''agent_pos'' = Inr (Leaf ap)
        \<and> dict_getitem item ''action'' = Inr (Leaf ac)
        \<and> t_shape ap = [h, 2] \<and> t_dtype ap = float32
        \<and> t_shape ac = h # arest \<and> t_dtype ac = float32
        \<and> t_data ac = (if dtype act = float32 then data act
                        else map (rnd ext float32) (data act))
        \<and> (length (data st) = h * d \<longrightarrow>
              length (t_data ap) = h * 2
            \<and> (\<forall>r < h. \<forall>j < 2. t_data ap ! (r * 2 + j) =
                  (if dtype st = float32 then data st ! (r * d + j)
                   else rnd ext float32 (data st ! (r * d + j)))))"
    using sh dac el by blast
next
  fix img assume "sample ''img'' = Some img \<and> 2 \<le> length (shape img)"
  then have i: "sample ''img'' = Some img" "2 \<le> length (shape img)" by simp_all
  have s: "2 \<le> length (shape st)" by (simp add: shapes(1))
  show "\<exists>item. Image_getitem ext self idx = Inr item"
    by (rule Image_getitem_returns [OF window(1,2) s i window(3)])
qed

theorem agent_pos_and_action_shapes_witness:
  "sample_sequence ex_ext (sampler ex_dataset) 1 = Inr (map_option (ex_window 1 2) \<circ> rb_data ex_rb)
 \<and> (map_option (ex_window 1 2) \<circ> rb_data ex_rb) ''state''
      = Some \<lparr>shape = [2, 3], dtype = float64, data = [4, 5, 6, 7, 8, 9]\<rparr>
 \<and> (map_option (ex_window 1 2) \<circ> rb_data ex_rb) ''action''
      = Some \<lparr>shape = [2, 2], dtype = float64, data = [0, 1, 1, 1]\<rparr>
 \<and> horizon ex_dataset = 2 \<and> Image_len ex_ext ex_dataset = 2
 \<and> (\<exists>item obs ap ac. Image_getitem ex_ext ex_dataset 1 = Inr item
      \<and> dict_getitem item ''obs'' = Inr obs
      \<and> dict_getitem obs ''agent_pos'' = Inr (Leaf ap)
      \<and> dict_getitem item ''action'' = Inr (Leaf ac)
      \<and> t_shape ap = [2, 2] \<and> t_dtype ap = float32 \<and> t_data ap = [4, 5, 7, 8]
      \<and> t_shape ac = [2, 2] \<and> t_dtype ac = float32)"
proof -
  let ?st = "\<lparr>shape = [2, 3], dtype = float64, data = [4, 5, 6, 7, 8, 9]\<rparr>"
  let ?act = "\<lparr>shape = [2, 2], dtype = float64, data = [0, 1, 1, 1]\<rparr>"
  let ?item = "Dict
       [(''obs'', Dict
          [(''image'', Leaf \<lparr>t_shape = [2, 2, 1, 2], t_dtype = float64,
                t_data = [2 / 51, 2 / 17, 4 / 51, 8 / 51, 50 / 51, 0, 1 / 51, 128 / 255]\<rparr>),
           (''agent_pos'', Leaf \<lparr>t_shape = [2, 2], t_dtype = float32, t_data = [4, 5, 7, 8]\<rparr>)]),
        (''action'', Leaf \<lparr>t_shape = [2, 2], t_dtype = float32, t_data = [0, 1, 1, 1]\<rparr>)]"
  have st: "(map_option (ex_window 1 2) \<circ> rb_data ex_rb) ''state'' = Some ?st"
    by (simp add: ex_rb_def ex_window_def ex_state_def)
  have act: "(map_option (ex_window 1 2) \<circ> rb_data ex_rb) ''action'' = Some ?act"
    by (simp add: ex_rb_def ex_window_def ex_action_def)
  have sh: "shape ?st = [2, 3]" "(2::nat) \<le> 3" "shape ?act = 2 # [2]"
    by simp_all
  have hz: "horizon ex_dataset = 2" "Image_len ex_ext ex_dataset = 2"
    by (simp_all add: ex_dataset_def Image_len_def ex_ext_def)
  from agent_pos_and_action_shapes
         [of ex_ext ex_dataset 1, OF ex_sample_sequence_1 st act sh] ex_getitem_1
  obtain obs ap ac where
    o: "dict_getitem ?item ''obs'' = Inr obs"
      "dict_getitem obs ''agent_pos'' = Inr (Leaf ap)"
      "dict_getitem ?item ''action'' = Inr (Leaf ac)"
      "t_shape ap = [2, 2]" "t_dtype ap = float32" "t_shape ac = [2, 2]" "t_dtype ac = float32"
    by blast
  from o(1,2) have "t_data ap = [4, 5, 7, 8]" by auto
  with ex_getitem_1 o have "\<exists>item obs ap ac. Image_getitem ex_ext ex_dataset 1 = Inr item
      \<and> dict_getitem item ''obs'' = Inr obs
      \<and> dict_getitem obs ''agent_pos'' = Inr (Leaf ap)
      \<and> dict_getitem item ''action'' = Inr (Leaf ac)
      \<and> t_shape ap = [2, 2] \<and> t_dtype ap = float32 \<and> t_data ap = [4, 5, 7, 8]
      \<and> t_shape ac = [2, 2] \<and> t_dtype ac = float32"
    by blast
  with ex_sample_sequence_1 st act hz show ?thesis by blast
qed

section \<open>Records of the lowdim adapter\<close>

lemma Lowdim_sample_to_data_result:
  assumes "Lowdim_sample_to_data ext self sample = Inr d"
  shows "\<exists>state goal flat obs act.
      sample (obs_key self) = Some state \<and> sample (state_key self) = Some goal
    \<and> reshape_shape0_minus1 state = Inr flat
    \<and> concatenate_last (rnd ext) flat goal = Inr obs
    \<and> sample (action_key self) = Some act
    \<and> d = Dict [(''obs'', Leaf obs), (''action'', Leaf act)]"
  using assms unfolding Lowdim_sample_to_data_def getitem_def
  by (simp split: sum.splits option.splits)

lemma reshape_shape0_minus1_result:
  assumes "reshape_shape0_minus1 a = Inr b"
  shows "\<exists>n0 rest. shape a = n0 # rest \<and> 0 < n0 \<and> shape b = [n0, prod_list rest]
     \<and> dtype b = dtype a \<and> data b = data a"
  using assms by (auto simp: reshape_shape0_minus1_def split: list.splits if_splits)

lemma concatenate_last_2d_result:
  assumes "concatenate_last r a b = Inr c" "shape a = [n, da]"
  shows "\<exists>db. shape b = [n, db] \<and> shape c = [n, da + db]
     \<and> dtype c = promote_types (dtype a) (dtype b)
     \<and> data c = concat (map2 (@) (rows n da (data (astype r a (dtype c))))
                                  (rows n db (data (astype r b (dtype c)))))"
proof -
  from assms have ne: "shape b \<noteq> []" and len: "length (shape b) = 2"
    and bl: "butlast (shape b) = [n]"
    by (auto simp: concatenate_last_def Let_def split: if_splits)
  from len obtain x y where xy: "shape b = [x, y]"
    by (cases "shape b"; cases "tl (shape b)") auto
  with bl have "shape b = [n, y]" by simp
  with assms show ?thesis
    by (auto simp: concatenate_last_def Let_def split: if_splits)
qed

lemma data_astype:
  "data (astype r a dt) = map (\<lambda>x. if dtype a = dt then x else r dt x) (data a)"
  by (simp add: astype_def)

lemma nth_concat_rows_append:
  assumes "length xs = n * da" "length ys = n * db" "t < n"
  shows "j < da \<Longrightarrow> concat (map2 (@) (rows n da xs) (rows n db ys)) ! (t * (da + db) + j)
            = xs ! (t * da + j)"
    and "j < db \<Longrightarrow> concat (map2 (@) (rows n da xs) (rows n db ys)) ! (t * (da + db) + da + j)
            = ys ! (t * db + j)"
proof -
  let ?bs = "map2 (@) (rows n da xs) (rows n db ys)"
  have lr: "\<And>i. i < n \<Longrightarrow> length (rows n da xs ! i) = da"
           "\<And>i. i < n \<Longrightarrow> length (rows n db ys ! i) = db"
    using assms(1,2) by (simp_all add: length_nth_rows)
  have lbs: "length ?bs = n" by (simp add: length_rows)
  have nb: "\<And>i. i < n \<Longrightarrow> ?bs ! i = rows n da xs ! i @ rows n db ys ! i"
    by (simp add: length_rows)
  have len: "\<And>b. b \<in> set ?bs \<Longrightarrow> length b = da + db"
  proof -
    fix b assume "b \<in> set ?bs"
    then obtain i where "i < n" "b = ?bs ! i"
      unfolding in_set_conv_nth lbs by blast
    with nb lr show "length b = da + db" by simp
  qed
  from assms(3) have "Suc t \<le> n" by simp
  then have le: "Suc t * da \<le> n * da" "Suc t * db \<le> n * db"
    by (simp_all only: mult_le_mono1)
  {
    assume j: "j < da"
    then have "concat ?bs ! (t * (da + db) + j) = ?bs ! t ! j"
      using len lbs assms(3) by (intro nth_concat_uniform) simp_all
    also have "\<dots> = rows n da xs ! t ! j"
      using nb [OF assms(3)] lr(1) [OF assms(3)] j by (simp add: nth_append)
    also have "\<dots> = xs ! (t * da + j)"
      using assms(3) j le(1) assms(1) by (intro nth_rows) simp_all
    finally show "concat ?bs ! (t * (da + db) + j) = xs ! (t * da + j)" .
  }
  {
    assume j: "j < db"
    have "concat ?bs ! (t * (da + db) + (da + j)) = ?bs ! t ! (da + j)"
      using len lbs assms(3) j by (intro nth_concat_uniform) simp_all
    also have "\<dots> = rows n db ys ! t ! j"
      using nb [OF assms(3)] lr(1) [OF assms(3)] by (simp add: nth_append)
    also have "\<dots> = ys ! (t * db + j)"
      using assms(3) j le(2) assms(2) by (intro nth_rows) simp_all
    finally show "concat ?bs ! (t * (da + db) + da + j) = ys ! (t * db + j)"
      by (simp add: add.assoc)
  }
qed


text \<open>
  C6. Whenever the record-building transform of the lowdim adapter returns, for a window
  whose observation field has shape \<open>T # rest\<close>: the goal field has shape \<open>(T, G)\<close>, and
  \<^verbatim>\<open>obs\<close> is the concatenation along the last axis of the observation field reshaped to
  \<open>(T, prod_list rest)\<close> with the goal field. Its shape is \<open>(T, prod_list rest + G)\<close>, and
  row \<open>t\<close> of it is row \<open>t\<close> of the flattened observation followed by row \<open>t\<close> of the
  goal, each element converted to the common dtype.
\<close>

theorem lowdim_obs_is_concatenation:
  assumes "Lowdim_sample_to_data ext self sample = Inr d"
  shows "\<exists>state goal act flat obs T rest G.
      sample (obs_key self) = Some state \<and> sample (state_key self) = Some goal
    \<and> sample (action_key self) = Some act
    \<and> d = Dict [(''obs'', Leaf obs), (''action'', Leaf act)]
    \<and> reshape_shape0_minus1 state = Inr flat
    \<and> concatenate_last (rnd ext) flat goal = Inr obs
    \<and> shape state = T # rest \<and> shape goal = [T, G]
    \<and> shape obs = [T, prod_list rest + G]
    \<and> dtype obs = promote_types (dtype state) (dtype goal)
    \<and> (length (data state) = T * prod_list rest \<and> length (data goal) = T * G \<longrightarrow>
         (\<forall>t < T.
            (\<forall>j < prod_list rest.
               data obs ! (t * (prod_list rest + G) + j) =
                 (if dtype state = dtype obs then data state ! (t * prod_list rest + j)
                  else rnd ext (dtype obs) (data state ! (t * prod_list rest + j))))
          \<and> (\<forall>j < G.
               data obs ! (t * (prod_list rest + G) + prod_list rest + j) =
                 (if dtype goal = dtype obs then data goal ! (t * G + j)
                  else rnd ext (dtype obs) (data goal ! (t * G + j))))))"
proof -
  from Lowdim_sample_to_data_result [OF assms] obtain state goal flat obs act where
    r: "sample (obs_key self) = Some state" "sample (state_key self) = Some goal"
       "reshape_shape0_minus1 state = Inr flat"
       "concatenate_last (rnd ext) flat goal = Inr obs"
       "sample (action_key self) = Some act"
       "d = Dict [(''obs'', Leaf obs), (''action'', Leaf act)]"
    by blast
  from reshape_shape0_minus1_result [OF r(3)] obtain T rest where
    f: "shape state = T # rest" "shape flat = [T, prod_list rest]"
       "dtype flat = dtype state" "data flat = data state"
    by blast
  define D where "D = prod_list rest"
  from concatenate_last_2d_result [OF r(4) f(2)] obtain G where
    c: "shape goal = [T, G]" "shape obs = [T, prod_list rest + G]"
       "dtype obs = promote_types (dtype flat) (dtype goal)"
       "data obs = concat (map2 (@) (rows T D (data (astype (rnd ext) flat (dtype obs))))
                                     (rows T G (data (astype (rnd ext) goal (dtype obs)))))"
    unfolding D_def by blast
  have el: "length (data state) = T * D \<and> length (data goal) = T * G \<longrightarrow>
         (\<forall>t < T.
            (\<forall>j < D. data obs ! (t * (D + G) + j) =
                 (if dtype state = dtype obs then data state ! (t * D + j)
                  else rnd ext (dtype obs) (data state ! (t * D + j))))
          \<and> (\<forall>j < G. data obs ! (t * (D + G) + D + j) =
                 (if dtype goal = dtype obs then data goal ! (t * G + j)
                  else rnd ext (dtype obs) (data goal ! (t * G + j)))))"
  proof (intro impI allI conjI; elim conjE)
    fix t j assume wf: "length (data state) = T * D" "length (data goal) = T * G"
      and t: "t < T"
    let ?xs = "data (astype (rnd ext) flat (dtype obs))"
    let ?ys = "data (astype (rnd ext) goal (dtype obs))"
    have lx: "length ?xs = T * D" and ly: "length ?ys = T * G"
      using wf by (simp_all add: data_astype f(4))
    from t have "Suc t \<le> T" by simp
    then have le: "Suc t * D \<le> T * D" "Suc t * G \<le> T * G"
      by (simp_all only: mult_le_mono1)
    {
      assume j: "j < D"
      with le(1) wf(1) have inb: "t * D + j < length (data state)" by simp
      have "data obs ! (t * (D + G) + j) = ?xs ! (t * D + j)"
        unfolding c(4) using lx ly t j by (rule nth_concat_rows_append(1))
      also have "\<dots> = (if dtype state = dtype obs then data state ! (t * D + j)
                  else rnd ext (dtype obs) (data state ! (t * D + j)))"
        using inb by (simp add: data_astype f(3,4))
      finally show "data obs ! (t * (D + G) + j) =
                 (if dtype state = dtype obs then data state ! (t * D + j)
                  else rnd ext (dtype obs) (data state ! (t * D + j)))" .
    }
    {
      assume j: "j < G"
      with le(2) wf(2) have inb: "t * G + j < length (data goal)" by simp
      have "data obs ! (t * (D + G) + D + j) = ?ys ! (t * G + j)"
        unfolding c(4) using lx ly t j by (rule nth_concat_rows_append(2))
      also have "\<dots> = (if dtype goal = dtype obs then data goal ! (t * G + j)
                  else rnd ext (dtype obs) (data goal ! (t * G + j)))"
        using inb by (simp add: data_astype)
      finally show "data obs ! (t * (D + G) + D + j) =
                 (if dtype goal = dtype obs then data goal ! (t * G + j)
                  else rnd ext (dtype obs) (data goal ! (t * G + j)))" .
    }
  qed
  from c(3) f(3) have dt: "dtype obs = promote_types (dtype state) (dtype goal)" by simp
  from r f(1) c(1,2) dt el [unfolded D_def] show ?thesis by blast
qed


lemma ex_Lowdim_sample_to_data:
  "Lowdim_sample_to_data ex_ext ex_lowdim (map_option (ex_window 1 2) \<circ> rb_data ex_rb) =
     Inr (Dict [(''obs'', Leaf \<lparr>shape = [2, 7], dtype = float64,
                    data = [10, 20, 30, 40, 4, 5, 6, 250, 5, 0, 128, 7, 8, 9]\<rparr>),
                (''action'', Leaf \<lparr>shape = [2, 2], dtype = float64, data = [0, 1, 1, 1]\<rparr>)])"
  by (simp add: Lowdim_sample_to_data_def ex_ext_def ex_lowdim_def ex_rb_def
        getitem_def ex_window_def ex_img_def ex_state_def ex_action_def
        reshape_shape0_minus1_def concatenate_last_def promote_types_def astype_def
        rows_def upt_rec)

theorem lowdim_obs_is_concatenation_witness:
  "Lowdim_sample_to_data ex_ext ex_lowdim (map_option (ex_window 1 2) \<circ> rb_data ex_rb) =
     Inr (Dict [(''obs'', Leaf \<lparr>shape = [2, 7], dtype = float64,
                    data = [10, 20, 30, 40, 4, 5, 6, 250, 5, 0, 128, 7, 8, 9]\<rparr>),
                (''action'', Leaf \<lparr>shape = [2, 2], dtype = float64, data = [0, 1, 1, 1]\<rparr>)])
 \<and> (\<exists>state goal T rest G.
      (map_option (ex_window 1 2) \<circ> rb_data ex_rb) (obs_key ex_lowdim) = Some state
    \<and> (map_option (ex_window 1 2) \<circ> rb_data ex_rb) (state_key ex_lowdim) = Some goal
    \<and> shape state = T # rest \<and> shape goal = [T, G]
    \<and> [2, 7] = [T, prod_list rest + G])"
proof -
  from lowdim_obs_is_concatenation [OF ex_Lowdim_sample_to_data]
  obtain state goal act flat obs T rest G where
    "(map_option (ex_window 1 2) \<circ> rb_data ex_rb) (obs_key ex_lowdim) = Some state"
    "(map_option (ex_window 1 2) \<circ> rb_data ex_rb) (state_key ex_lowdim) = Some goal"
    "Dict [(''obs'', Leaf \<lparr>shape = [2, 7], dtype = float64,
                    data = [10, 20, 30, 40, 4, 5, 6, 250, 5, 0, 128, 7, 8, 9]\<rparr>),
                (''action'', Leaf \<lparr>shape = [2, 2], dtype = float64, data = [0, 1, 1, 1]\<rparr>)]
       = Dict [(''obs'', Leaf obs), (''action'', Leaf act)]"
    "shape state = T # rest" "shape goal = [T, G]" "shape obs = [T, prod_list rest + G]"
    by blast
  then have "\<exists>state goal T rest G.
      (map_option (ex_window 1 2) \<circ> rb_data ex_rb) (obs_key ex_lowdim) = Some state
    \<and> (map_option (ex_window 1 2) \<circ> rb_data ex_rb) (state_key ex_lowdim) = Some goal
    \<and> shape state = T # rest \<and> shape goal = [T, G]
    \<and> [2, 7] = [T, prod_list rest + G]"
    by auto
  with ex_Lowdim_sample_to_data show ?thesis by blast
qed

section \<open>Normalizers\<close>

lemma getitem_ellipsis_to2_result:
  assumes "getitem_ellipsis_to2 st = Inr ap"
  shows "shape st \<noteq> []
     \<and> shape ap = butlast (shape st) @ [min 2 (last (shape st))]
     \<and> dtype ap = dtype st
     \<and> data ap = concat (map (take 2)
          (rows (prod_list (butlast (shape st))) (last (shape st)) (data st)))"
proof -
  from assms have ne: "shape st \<noteq> []"
    by (auto simp: getitem_ellipsis_to2_def split: if_splits)
  then have "take (length (shape st) - Suc 0) (shape st) = butlast (shape st)"
    "shape st ! (length (shape st) - Suc 0) = last (shape st)"
    by (simp_all add: butlast_conv_take last_conv_nth)
  with assms ne show ?thesis
    by (auto simp: getitem_ellipsis_to2_def slice_axis_def Let_def split: if_splits)
qed

lemma leading_columns:
  assumes "length xs = h * d" "r < h" "j < min 2 d"
  shows "concat (map (take 2) (rows h d xs)) ! (r * min 2 d + j) = xs ! (r * d + j)"
proof -
  let ?bs = "map (take 2) (rows h d xs)"
  have len: "\<And>b. b \<in> set ?bs \<Longrightarrow> length b = min 2 d"
  proof -
    fix b assume "b \<in> set ?bs"
    then obtain i where i: "i < h" "b = take 2 (rows h d xs ! i)"
      by (auto simp: in_set_conv_nth length_rows)
    from i(1) assms(1) have "length (rows h d xs ! i) = d"
      by (intro length_nth_rows) simp_all
    with i(2) show "length b = min 2 d" by (simp add: min.commute)
  qed
  from assms(2) have "Suc r \<le> h" by simp
  then have "Suc r * d \<le> h * d" by (rule mult_le_mono1)
  with assms have inb: "r * d + j < length xs" by simp
  have "concat ?bs ! (r * min 2 d + j) = ?bs ! r ! j"
    using len assms(2,3) by (intro nth_concat_uniform) (simp_all add: length_rows)
  also have "\<dots> = rows h d xs ! r ! j"
    using assms(2,3) by (simp add: length_rows)
  also have "\<dots> = xs ! (r * d + j)"
    using assms inb by (intro nth_rows) simp_all
  finally show ?thesis .
qed

lemma Image_get_normalizer_result:
  assumes "Image_get_normalizer ext self mode kwargs = Inr nz"
  shows "\<exists>act st ap fitted.
      rb_data (replay_buffer self) ''action'' = Some act
    \<and> rb_data (replay_buffer self) ''state'' = Some st
    \<and> getitem_ellipsis_to2 st = Inr ap
    \<and> fit ext (Dict [(''action'', Leaf act), (''agent_pos'', Leaf ap)]) 1 mode kwargs = Inr fitted
    \<and> nz = fitted(''image'' \<mapsto> get_image_range_normalizer ext)"
  using assms unfolding Image_get_normalizer_def getitem_def
  by (simp split: sum.splits option.splits)

text \<open>
  C7. Whenever \<^verbatim>\<open>get_normalizer\<close> of the image adapter returns, the normalizer was fit,
  with \<^verbatim>\<open>last_n_dims=1\<close> and the caller's mode and options, on a dict of exactly two
  entries: \<^verbatim>\<open>action\<close>, the whole stored \<^verbatim>\<open>action\<close> array, and \<^verbatim>\<open>agent_pos\<close>, the whole
  stored \<^verbatim>\<open>state\<close> array cut to its first two columns along the last axis. The result is
  the fitted normalizer with its \<^verbatim>\<open>image\<close> entry set to \<^verbatim>\<open>get_image_range_normalizer()\<close>,
  which takes nothing from the store. Sampler, mask, horizon and padding play no part.
\<close>

theorem image_normalizer_entries:
  "(Image_get_normalizer ext self mode kwargs = Inr nz \<longrightarrow>
     (\<exists>act st ap fitted.
        rb_data (replay_buffer self) ''action'' = Some act
      \<and> rb_data (replay_buffer self) ''state'' = Some st
      \<and> fit ext (Dict [(''action'', Leaf act), (''agent_pos'', Leaf ap)]) 1 mode kwargs = Inr fitted
      \<and> nz = fitted(''image'' \<mapsto> get_image_range_normalizer ext)
      \<and> nz ''image'' = Some (get_image_range_normalizer ext)
      \<and> shape st \<noteq> []
      \<and> shape ap = butlast (shape st) @ [min 2 (last (shape st))]
      \<and> dtype ap = dtype st
      \<and> (length (data st) = prod_list (shape st) \<longrightarrow>
           (\<forall>r < prod_list (butlast (shape st)). \<forall>j < min 2 (last (shape st)).
              data ap ! (r * min 2 (last (shape st)) + j) = data st ! (r * last (shape st) + j)))))
 \<and> Image_get_normalizer ext
      (self\<lparr>sampler := s, train_mask := m, horizon := hz, pad_before := pb, pad_after := pa\<rparr>)
      mode kwargs = Image_get_normalizer ext self mode kwargs"
proof (intro conjI impI)
  assume a: "Image_get_normalizer ext self mode kwargs = Inr nz"
  from Image_get_normalizer_result [OF a] obtain act st ap fitted where
    r: "rb_data (replay_buffer self) ''action'' = Some act"
       "rb_data (replay_buffer self) ''state'' = Some st"
       "getitem_ellipsis_to2 st = Inr ap"
       "fit ext (Dict [(''action'', Leaf act), (''agent_pos'', Leaf ap)]) 1 mode kwargs = Inr fitted"
       "nz = fitted(''image'' \<mapsto> get_image_range_normalizer ext)"
    by blast
  from getitem_ellipsis_to2_result [OF r(3)] have
    g: "shape st \<noteq> []"
       "shape ap = butlast (shape st) @ [min 2 (last (shape st))]"
       "dtype ap = dtype st"
       "data ap = concat (map (take 2)
          (rows (prod_list (butlast (shape st))) (last (shape st)) (data st)))"
    by simp_all
  have img: "nz ''image'' = Some (get_image_range_normalizer ext)"
    by (simp add: r(5))
  have el: "length (data st) = prod_list (shape st) \<longrightarrow>
           (\<forall>r < prod_list (butlast (shape st)). \<forall>j < min 2 (last (shape st)).
              data ap ! (r * min 2 (last (shape st)) + j) = data st ! (r * last (shape st) + j))"
  proof (intro impI allI)
    fix r j assume wf: "length (data st) = prod_list (shape st)"
      and rj: "r < prod_list (butlast (shape st))" "j < min 2 (last (shape st))"
    have "prod_list (shape st) = prod_list (butlast (shape st) @ [last (shape st)])"
      using g(1) by simp
    then have "length (data st) = prod_list (butlast (shape st)) * last (shape st)"
      using wf by simp
    then show "data ap ! (r * min 2 (last (shape st)) + j) = data st ! (r * last (shape st) + j)"
      unfolding g(4) using rj by (rule leading_columns)
  qed
  from r(1,2,4,5) img g(1,2,3) el
  show "\<exists>act st ap fitted.
        rb_data (replay_buffer self) ''action'' = Some act
      \<and> rb_data (replay_buffer self) ''state'' = Some st
      \<and> fit ext (Dict [(''action'', Leaf act), (''agent_pos'', Leaf ap)]) 1 mode kwargs = Inr fitted
      \<and> nz = fitted(''image'' \<mapsto> get_image_range_normalizer ext)
      \<and> nz ''image'' = Some (get_image_range_normalizer ext)
      \<and> shape st \<noteq> []
      \<and> shape ap = butlast (shape st) @ [min 2 (last (shape st))]
      \<and> dtype ap = dtype st
      \<and> (length (data st) = prod_list (shape st) \<longrightarrow>
           (\<forall>r < prod_list (butlast (shape st)). \<forall>j < min 2 (last (shape st)).
              data ap ! (r * min 2 (last (shape st)) + j) = data st ! (r * last (shape st) + j)))"
    by blast
next
  show "Image_get_normalizer ext
      (self\<lparr>sampler := s, train_mask := m, horizon := hz, pad_before := pb, pad_after := pa\<rparr>)
      mode kwargs = Image_get_normalizer ext self mode kwargs"
    by (simp add: Image_get_normalizer_def cong: sum.case_cong)
qed


lemma ex_Image_get_normalizer:
  "Image_get_normalizer ex_ext ex_dataset ''limits'' () =
     Inr ((map_of [(''action'', (0, 1)), (''agent_pos'', (1, 8))])(''image'' \<mapsto> (0, 1)))"
  by (simp add: Image_get_normalizer_def ex_ext_def ex_dataset_def ex_rb_def getitem_def
        ex_state_def ex_action_def getitem_ellipsis_to2_def slice_axis_def rows_def upt_rec)


theorem image_normalizer_entries_witness:
  "Image_get_normalizer ex_ext ex_dataset ''limits'' () =
     Inr ((map_of [(''action'', (0, 1)), (''agent_pos'', (1, 8))])(''image'' \<mapsto> (0, 1)))
 \<and> (\<exists>act st ap fitted.
        rb_data (replay_buffer ex_dataset) ''action'' = Some act
      \<and> rb_data (replay_buffer ex_dataset) ''state'' = Some st
      \<and> fit ex_ext (Dict [(''action'', Leaf act), (''agent_pos'', Leaf ap)]) 1 ''limits'' ()
           = Inr fitted
      \<and> (map_of [(''action'', (0, 1)), (''agent_pos'', (1, 8))])(''image'' \<mapsto> (0, 1))
           = fitted(''image'' \<mapsto> get_image_range_normalizer ex_ext)
      \<and> shape ap = butlast (shape st) @ [min 2 (last (shape st))])"
proof -
  from image_normalizer_entries
         [of ex_ext ex_dataset "''limits''" "()"
             "(map_of [(''action'', (0, 1)), (''agent_pos'', (1, 8))])(''image'' \<mapsto> (0, 1))"]
       ex_Image_get_normalizer
  have "\<exists>act st ap fitted.
        rb_data (replay_buffer ex_dataset) ''action'' = Some act
      \<and> rb_data (replay_buffer ex_dataset) ''state'' = Some st
      \<and> fit ex_ext (Dict [(''action'', Leaf act), (''agent_pos'', Leaf ap)]) 1 ''limits'' ()
           = Inr fitted
      \<and> (map_of [(''action'', (0, 1)), (''agent_pos'', (1, 8))])(''image'' \<mapsto> (0, 1))
           = fitted(''image'' \<mapsto> get_image_range_normalizer ex_ext)
      \<and> shape ap = butlast (shape st) @ [min 2 (last (shape st))]"
    by blast
  with ex_Image_get_normalizer show ?thesis by blast
qed

lemma Lowdim_sample_to_data_shapes:
  assumes "Lowdim_sample_to_data ext self sample = Inr d"
  shows "\<exists>state goal act obs T rest G.
      sample (obs_key self) = Some state \<and> sample (state_key self) = Some goal
    \<and> sample (action_key self) = Some act
    \<and> d = Dict [(''obs'', Leaf obs), (''action'', Leaf act)]
    \<and> shape state = T # rest \<and> shape goal = [T, G]
    \<and> shape obs = [T, prod_list rest + G]"
proof -
  from Lowdim_sample_to_data_result [OF assms] obtain state goal flat obs act where
    r: "sample (obs_key self) = Some state" "sample (state_key self) = Some goal"
       "reshape_shape0_minus1 state = Inr flat"
       "concatenate_last (rnd ext) flat goal = Inr obs"
       "sample (action_key self) = Some act"
       "d = Dict [(''obs'', Leaf obs), (''action'', Leaf act)]"
    by blast
  from reshape_shape0_minus1_result [OF r(3)] obtain T rest where
    f: "shape state = T # rest" "shape flat = [T, prod_list rest]"
    by blast
  from concatenate_last_2d_result [OF r(4) f(2)] obtain G where
    c: "shape goal = [T, G]" "shape obs = [T, prod_list rest + G]"
    by blast
  from r(1,2,5,6) f(1) c show ?thesis by blast
qed

text \<open>
  C8. \<^verbatim>\<open>get_normalizer\<close> of the lowdim adapter applies the record-building transform
  to the replay buffer itself and fits, with \<^verbatim>\<open>last_n_dims=1\<close> and the caller's mode and
  options, on the \<^verbatim>\<open>{obs, action}\<close> record it returns: \<^verbatim>\<open>action\<close> is the whole stored
  action array and \<^verbatim>\<open>obs\<close> has one row for each of the \<open>T\<close> stored timesteps. The
  sampler, the mask, the horizon and the padding play no part, so no window is involved.
\<close>

theorem lowdim_normalizer_on_whole_buffer:
  "Lowdim_get_normalizer ext self mode kwargs =
     (case Lowdim_sample_to_data ext self (rb_data (replay_buffer self)) of
        Inl e \<Rightarrow> Inl e
      | Inr d \<Rightarrow> fit ext d 1 mode kwargs)
 \<and> (Lowdim_get_normalizer ext self mode kwargs = Inr nz \<longrightarrow>
     (\<exists>state goal act obs T rest G.
        rb_data (replay_buffer self) (obs_key self) = Some state
      \<and> rb_data (replay_buffer self) (state_key self) = Some goal
      \<and> rb_data (replay_buffer self) (action_key self) = Some act
      \<and> shape state = T # rest \<and> shape goal = [T, G]
      \<and> shape obs = [T, prod_list rest + G]
      \<and> Lowdim_sample_to_data ext self (rb_data (replay_buffer self))
           = Inr (Dict [(''obs'', Leaf obs), (''action'', Leaf act)])
      \<and> fit ext (Dict [(''obs'', Leaf obs), (''action'', Leaf act)]) 1 mode kwargs = Inr nz))
 \<and> Lowdim_get_normalizer ext
      (self\<lparr>sampler := s, train_mask := m, horizon := hz, pad_before := pb, pad_after := pa\<rparr>)
      mode kwargs = Lowdim_get_normalizer ext self mode kwargs"
proof (intro conjI impI)
  show "Lowdim_get_normalizer ext self mode kwargs =
     (case Lowdim_sample_to_data ext self (rb_data (replay_buffer self)) of
        Inl e \<Rightarrow> Inl e
      | Inr d \<Rightarrow> fit ext d 1 mode kwargs)"
    by (simp add: Lowdim_get_normalizer_def)
next
  assume a: "Lowdim_get_normalizer ext self mode kwargs = Inr nz"
  then obtain d where
    d: "Lowdim_sample_to_data ext self (rb_data (replay_buffer self)) = Inr d"
    and f: "fit ext d 1 mode kwargs = Inr nz"
    unfolding Lowdim_get_normalizer_def by (auto split: sum.splits)
  from Lowdim_sample_to_data_shapes [OF d] d f
  show "\<exists>state goal act obs T rest G.
        rb_data (replay_buffer self) (obs_key self) = Some state
      \<and> rb_data (replay_buffer self) (state_key self) = Some goal
      \<and> rb_data (replay_buffer self) (action_key self) = Some act
      \<and> shape state = T # rest \<and> shape goal = [T, G]
      \<and> shape obs = [T, prod_list rest + G]
      \<and> Lowdim_sample_to_data ext self (rb_data (replay_buffer self))
           = Inr (Dict [(''obs'', Leaf obs), (''action'', Leaf act)])
      \<and> fit ext (Dict [(''obs'', Leaf obs), (''action'', Leaf act)]) 1 mode kwargs = Inr nz"
    by blast
next
  show "Lowdim_get_normalizer ext
      (self\<lparr>sampler := s, train_mask := m, horizon := hz, pad_before := pb, pad_after := pa\<rparr>)
      mode kwargs = Lowdim_get_normalizer ext self mode kwargs"
    by (simp add: Lowdim_get_normalizer_def Lowdim_sample_to_data_def cong: sum.case_cong)
qed


lemma ex_Lowdim_sample_to_data_buffer:
  "Lowdim_sample_to_data ex_ext ex_lowdim (rb_data (replay_buffer ex_lowdim)) =
     Inr (Dict [(''obs'', Leaf \<lparr>shape = [3, 7], dtype = float64,
                    data = [0, 255, 51, 102, 1, 2, 3, 10, 20, 30, 40, 4, 5, 6,
                            250, 5, 0, 128, 7, 8, 9]\<rparr>),
                (''action'', Leaf ex_action)])"
  by (simp add: Lowdim_sample_to_data_def ex_ext_def ex_lowdim_def ex_rb_def
        getitem_def ex_img_def ex_state_def
        reshape_shape0_minus1_def concatenate_last_def promote_types_def astype_def
        rows_def upt_rec)

lemma ex_Lowdim_get_normalizer:
  "Lowdim_get_normalizer ex_ext ex_lowdim ''limits'' () =
     Inr (map_of [(''obs'', (0, 255)), (''action'', (0, 1))])"
  by (simp add: Lowdim_get_normalizer_def ex_Lowdim_sample_to_data_buffer)
     (simp add: ex_ext_def ex_action_def)

theorem lowdim_normalizer_on_whole_buffer_witness:
  "Lowdim_get_normalizer ex_ext ex_lowdim ''limits'' () =
     Inr (map_of [(''obs'', (0, 255)), (''action'', (0, 1))])
 \<and> (\<exists>state goal act obs T rest G.
        rb_data (replay_buffer ex_lowdim) (obs_key ex_lowdim) = Some state
      \<and> rb_data (replay_buffer ex_lowdim) (state_key ex_lowdim) = Some goal
      \<and> rb_data (replay_buffer ex_lowdim) (action_key ex_lowdim) = Some act
      \<and> shape state = T # rest \<and> shape goal = [T, G]
      \<and> shape obs = [T, prod_list rest + G]
      \<and> Lowdim_sample_to_data ex_ext ex_lowdim (rb_data (replay_buffer ex_lowdim))
           = Inr (Dict [(''obs'', Leaf obs), (''action'', Leaf act)])
      \<and> fit ex_ext (Dict [(''obs'', Leaf obs), (''action'', Leaf act)]) 1 ''limits'' ()
           = Inr (map_of [(''obs'', (0, 255)), (''action'', (0, 1))]))"
proof -
  from lowdim_normalizer_on_whole_buffer
         [of ex_ext ex_lowdim "''limits''" "()"
             "map_of [(''obs'', (0, 255)), (''action'', (0, 1))]"]
       ex_Lowdim_get_normalizer
  have "\<exists>state goal act obs T rest G.
        rb_data (replay_buffer ex_lowdim) (obs_key ex_lowdim) = Some state
      \<and> rb_data (replay_buffer ex_lowdim) (state_key ex_lowdim) = Some goal
      \<and> rb_data (replay_buffer ex_lowdim) (action_key ex_lowdim) = Some act
      \<and> shape state = T # rest \<and> shape goal = [T, G]
      \<and> shape obs = [T, prod_list rest + G]
      \<and> Lowdim_sample_to_data ex_ext ex_lowdim (rb_data (replay_buffer ex_lowdim))
           = Inr (Dict [(''obs'', Leaf obs), (''action'', Leaf act)])
      \<and> fit ex_ext (Dict [(''obs'', Leaf obs), (''action'', Leaf act)]) 1 ''limits'' ()
           = Inr (map_of [(''obs'', (0, 255)), (''action'', (0, 1))])"
    by blast
  with ex_Lowdim_get_normalizer show ?thesis by blast
qed

section \<open>The mask field of the lowdim adapter\<close>

lemma Lowdim_sample_to_data_cong:
  assumes "obs_key self' = obs_key self" "state_key self' = state_key self"
    "action_key self' = action_key self"
    "w' (obs_key self) = w (obs_key self)" "w' (state_key self) = w (state_key self)"
    "w' (action_key self) = w (action_key self)"
  shows "Lowdim_sample_to_data ext self' w' = Lowdim_sample_to_data ext self w"
  by (simp add: Lowdim_sample_to_data_def getitem_def assms cong: sum.case_cong)

text \<open>
  C9. The field named by \<^verbatim>\<open>mask_key\<close> is loaded by the lowdim constructor, with the
  three other fields, and is not read afterwards. Take two lowdim datasets with the
  same \<open>obs_key\<close>, \<open>state_key\<close> and \<open>action_key\<close>, none of them the mask key \<open>mk\<close>,
  whose stores differ at most in the field \<open>mk\<close>, and whose samplers return, at \<open>idx\<close>,
  the same exception or windows that differ at most in the field \<open>mk\<close>. Then
  \<^verbatim>\<open>__getitem__(idx)\<close>, \<^verbatim>\<open>get_normalizer\<close> and \<^verbatim>\<open>get_all_actions\<close> return the same on
  both.
\<close>

theorem mask_key_never_read:
  assumes keys: "mk \<noteq> obs_key self" "mk \<noteq> state_key self" "mk \<noteq> action_key self"
    and same: "obs_key self' = obs_key self" "state_key self' = state_key self"
      "action_key self' = action_key self"
    and store: "rb_data (replay_buffer self') = (rb_data (replay_buffer self))(mk := v)"
    and windows: "rel_sum (=) (\<lambda>w w'. \<forall>k. k \<noteq> mk \<longrightarrow> w' k = w k)
      (sample_sequence ext (sampler self) idx) (sample_sequence ext (sampler self') idx)"
  shows "Lowdim_getitem ext self' idx = Lowdim_getitem ext self idx
     \<and> Lowdim_get_normalizer ext self' mode kwargs = Lowdim_get_normalizer ext self mode kwargs
     \<and> Lowdim_get_all_actions ext self' = Lowdim_get_all_actions ext self
     \<and> (Lowdim_init ext path hz pb pa ok sk ak mask_key seed val_ratio mte = Inr d \<longrightarrow>
          copy_from_path ext path [ok, sk, ak, mask_key] = Inr (replay_buffer d)
        \<and> obs_key d = ok \<and> state_key d = sk \<and> action_key d = ak)"
proof (intro conjI impI)
  show "Lowdim_getitem ext self' idx = Lowdim_getitem ext self idx"
  proof (cases "sample_sequence ext (sampler self) idx")
    case (Inl e)
    with windows have "sample_sequence ext (sampler self') idx = Inl e"
      by (cases "sample_sequence ext (sampler self') idx") auto
    with Inl show ?thesis by (simp add: Lowdim_getitem_def)
  next
    case (Inr w)
    with windows obtain w' where
      w': "sample_sequence ext (sampler self') idx = Inr w'" "\<forall>k. k \<noteq> mk \<longrightarrow> w' k = w k"
      by (cases "sample_sequence ext (sampler self') idx") auto
    from w'(2) keys have "w' (obs_key self) = w (obs_key self)"
      "w' (state_key self) = w (state_key self)" "w' (action_key self) = w (action_key self)"
      by simp_all
    with same have "Lowdim_sample_to_data ext self' w' = Lowdim_sample_to_data ext self w"
      by (rule Lowdim_sample_to_data_cong)
    with Inr w'(1) show ?thesis by (simp add: Lowdim_getitem_def)
  qed
next
  from store keys have
    "rb_data (replay_buffer self') (obs_key self) = rb_data (replay_buffer self) (obs_key self)"
    "rb_data (replay_buffer self') (state_key self) = rb_data (replay_buffer self) (state_key self)"
    "rb_data (replay_buffer self') (action_key self) = rb_data (replay_buffer self) (action_key self)"
    by simp_all
  with same have "Lowdim_sample_to_data ext self' (rb_data (replay_buffer self'))
      = Lowdim_sample_to_data ext self (rb_data (replay_buffer self))"
    by (rule Lowdim_sample_to_data_cong)
  then show "Lowdim_get_normalizer ext self' mode kwargs = Lowdim_get_normalizer ext self mode kwargs"
    by (simp add: Lowdim_get_normalizer_def)
next
  from store keys(3) have
    "rb_data (replay_buffer self') (action_key self) = rb_data (replay_buffer self) (action_key self)"
    by simp
  then show "Lowdim_get_all_actions ext self' = Lowdim_get_all_actions ext self"
    by (simp add: Lowdim_get_all_actions_def getitem_def same(3))
next
  assume a: "Lowdim_init ext path hz pb pa ok sk ak mask_key seed val_ratio mte = Inr d"
  from Lowdim_init_result [OF a] obtain rb s where
    r: "copy_from_path ext path [ok, sk, ak, mask_key] = Inr rb"
       "d = \<lparr>replay_buffer = rb, sampler = s, train_mask = train_mask d,
              horizon = hz, pad_before = pb, pad_after = pa,
              obs_key = ok, state_key = sk, action_key = ak\<rparr>"
    by blast
  have "replay_buffer d = rb" "obs_key d = ok" "state_key d = sk" "action_key d = ak"
    by (subst r(2), simp)+
  with r(1) show "copy_from_path ext path [ok, sk, ak, mask_key] = Inr (replay_buffer d)"
    "obs_key d = ok" "state_key d = sk" "action_key d = ak"
    by simp_all
qed


lemma ex_Lowdim_init_masked:
  "Lowdim_init ex_ext ''masked.zarr'' 2 0 0 ''img'' ''state'' ''action'' ''valid_obs_mask''
     42 (3 / 10) None = Inr (ex_lowdim_mask [1, 1, 1])"
  by (simp add: Lowdim_init_def ex_ext_def ex_lowdim_mask_def ex_rb_mask_def ex_rb_def
        n_episodes_def invert_def upt_rec)

lemma ex_Lowdim_getitem_masked:
  "Lowdim_getitem ex_ext (ex_lowdim_mask [1, 1, 1]) 1 =
     Inr (Dict [(''obs'', Leaf \<lparr>t_shape = [2, 7], t_dtype = float64,
                    t_data = [10, 20, 30, 40, 4, 5, 6, 250, 5, 0, 128, 7, 8, 9]\<rparr>),
                (''action'', Leaf \<lparr>t_shape = [2, 2], t_dtype = float64, t_data = [0, 1, 1, 1]\<rparr>)])"
  by (simp add: Lowdim_getitem_def Lowdim_sample_to_data_def ex_ext_def ex_lowdim_mask_def
        ex_rb_mask_def ex_rb_def
        getitem_def ex_window_def ex_img_def ex_state_def ex_action_def
        reshape_shape0_minus1_def concatenate_last_def promote_types_def astype_def
        rows_def upt_rec dict_apply_def from_numpy_def)

theorem mask_key_never_read_witness:
  "Lowdim_init ex_ext ''masked.zarr'' 2 0 0 ''img'' ''state'' ''action'' ''valid_obs_mask''
     42 (3 / 10) None = Inr (ex_lowdim_mask [1, 1, 1])
 \<and> rb_data (replay_buffer (ex_lowdim_mask [0, 1, 0])) =
     (rb_data (replay_buffer (ex_lowdim_mask [1, 1, 1])))
       (''valid_obs_mask'' \<mapsto> \<lparr>shape = [3], dtype = boolean, data = [0, 1, 0]\<rparr>)
 \<and> rb_data (replay_buffer (ex_lowdim_mask [0, 1, 0])) ''valid_obs_mask''
     \<noteq> rb_data (replay_buffer (ex_lowdim_mask [1, 1, 1])) ''valid_obs_mask''
 \<and> Lowdim_getitem ex_ext (ex_lowdim_mask [1, 1, 1]) 1 =
     Inr (Dict [(''obs'', Leaf \<lparr>t_shape = [2, 7], t_dtype = float64,
                    t_data = [10, 20, 30, 40, 4, 5, 6, 250, 5, 0, 128, 7, 8, 9]\<rparr>),
                (''action'', Leaf \<lparr>t_shape = [2, 2], t_dtype = float64, t_data = [0, 1, 1, 1]\<rparr>)])
 \<and> Lowdim_getitem ex_ext (ex_lowdim_mask [0, 1, 0]) 1
     = Lowdim_getitem ex_ext (ex_lowdim_mask [1, 1, 1]) 1
 \<and> Lowdim_get_normalizer ex_ext (ex_lowdim_mask [0, 1, 0]) ''limits'' ()
     = Lowdim_get_normalizer ex_ext (ex_lowdim_mask [1, 1, 1]) ''limits'' ()
 \<and> Lowdim_get_all_actions ex_ext (ex_lowdim_mask [0, 1, 0])
     = Lowdim_get_all_actions ex_ext (ex_lowdim_mask [1, 1, 1])
 \<and> copy_from_path ex_ext ''masked.zarr'' [''img'', ''state'', ''action'', ''valid_obs_mask'']
     = Inr (replay_buffer (ex_lowdim_mask [1, 1, 1]))"
proof -
  let ?a = "ex_lowdim_mask [1, 1, 1]" and ?b = "ex_lowdim_mask [0, 1, 0]"
  let ?v = "\<lparr>shape = [3], dtype = boolean, data = [0, 1, 0]\<rparr>"
  have keys: "''valid_obs_mask'' \<noteq> obs_key ?a" "''valid_obs_mask'' \<noteq> state_key ?a"
    "''valid_obs_mask'' \<noteq> action_key ?a"
    by (simp_all add: ex_lowdim_mask_def)
  have same: "obs_key ?b = obs_key ?a" "state_key ?b = state_key ?a" "action_key ?b = action_key ?a"
    by (simp_all add: ex_lowdim_mask_def)
  have store: "rb_data (replay_buffer ?b) = (rb_data (replay_buffer ?a))(''valid_obs_mask'' := Some ?v)"
    by (simp add: ex_lowdim_mask_def ex_rb_mask_def numeral_3_eq_3)
  have differ: "rb_data (replay_buffer ?b) ''valid_obs_mask''
     \<noteq> rb_data (replay_buffer ?a) ''valid_obs_mask''"
    by (simp add: ex_lowdim_mask_def ex_rb_mask_def)
  have windows: "rel_sum (=) (\<lambda>w w'. \<forall>k. k \<noteq> ''valid_obs_mask'' \<longrightarrow> w' k = w k)
      (sample_sequence ex_ext (sampler ?a) 1) (sample_sequence ex_ext (sampler ?b) 1)"
    by (simp add: ex_ext_def ex_lowdim_mask_def ex_rb_mask_def)
  note t = mask_key_never_read
         [of "''valid_obs_mask''" ?a ?b "Some ?v" ex_ext 1 "''limits''" "()"
             "''masked.zarr''" 2 0 0 "''img''" "''state''" "''action''" "''valid_obs_mask''"
             42 "3 / 10" None ?a,
          OF keys same store windows]
  from t ex_Lowdim_init_masked
  have "copy_from_path ex_ext ''masked.zarr'' [''img'', ''state'', ''action'', ''valid_obs_mask'']
     = Inr (replay_buffer ?a)"
    by blast
  with t ex_Lowdim_init_masked ex_Lowdim_getitem_masked store differ show ?thesis
    by simp
qed

end
